theory Spec2Isabelle
  imports Main "HOL-Library.AList"
begin

section \<open>Optional range predicates (\<^verbatim>\<open>OptionalBetween\<close>)\<close>

text \<open>
  \<^verbatim>\<open>OptionalBetween<T>(from?: T, to?: T)\<close> tests its arguments for truthiness,
  not for presence. An optional argument is an \<open>option\<close> (\<open>None\<close> is
  \<^verbatim>\<open>undefined\<close>); what JavaScript finds truthy among the values of the type
  \<open>T\<close> is the parameter \<open>truthy\<close>, with the instances below for the types the
  search options use.
\<close>

definition js_truthy_boolean :: "bool \<Rightarrow> bool" where
  "js_truthy_boolean b = b"

text \<open>
  A number is an integer value or \<^verbatim>\<open>NaN\<close> (fractions and infinities are left
  out: like every non-zero integer they are truthy). The falsy numbers are \<open>0\<close> and
  \<^verbatim>\<open>NaN\<close>.
\<close>

datatype js_number = Num int | NaN

fun js_truthy_number :: "js_number \<Rightarrow> bool" where
  "js_truthy_number (Num n) = (n \<noteq> 0)"
| "js_truthy_number NaN = False"

definition js_truthy_string :: "string \<Rightarrow> bool" where
  "js_truthy_string s = (s \<noteq> [])"

definition js_truthy_object :: "'a \<Rightarrow> bool" where
  \<comment> \<open>objects (\<^verbatim>\<open>Date\<close>, \<^verbatim>\<open>Buffer\<close>, arrays) are always truthy\<close>
  "js_truthy_object x = True"

definition truthy_opt :: "('a \<Rightarrow> bool) \<Rightarrow> 'a option \<Rightarrow> bool" where
  "truthy_opt truthy x = (case x of None \<Rightarrow> False | Some v \<Rightarrow> truthy v)"

definition truthy_b :: "bool option \<Rightarrow> bool" where
  "truthy_b x = truthy_opt js_truthy_boolean x"

definition truthy_s :: "string option \<Rightarrow> bool" where
  "truthy_s x = truthy_opt js_truthy_string x"

definition truthy_o :: "'a option \<Rightarrow> bool" where
  "truthy_o x = truthy_opt js_truthy_object x"

text \<open>The find operators of the ORM that \<^verbatim>\<open>OptionalBetween\<close> returns.\<close>

datatype 'a FindOperator = Between 'a 'a | MoreThanOrEqual 'a | LessThanOrEqual 'a

definition OptionalBetween ::
  "('a \<Rightarrow> bool) \<Rightarrow> 'a option \<Rightarrow> 'a option \<Rightarrow> 'a FindOperator option" where
  "OptionalBetween truthy from_v to_v =
     (if truthy_opt truthy from_v \<and> truthy_opt truthy to_v
        then Some (Between (the from_v) (the to_v))
      else if truthy_opt truthy from_v then Some (MoreThanOrEqual (the from_v))
      else if truthy_opt truthy to_v then Some (LessThanOrEqual (the to_v))
      else None)"

text \<open>
  The values a column constrained by the result admits: \<^verbatim>\<open>Between\<close> is SQL's
  inclusive \<^verbatim>\<open>BETWEEN\<close>, and a \<^verbatim>\<open>where\<close> entry that is
  \<^verbatim>\<open>undefined\<close> constrains nothing.
\<close>

fun FindOperator_matches :: "('a::linorder) FindOperator option \<Rightarrow> 'a \<Rightarrow> bool" where
  "FindOperator_matches None v = True"
| "FindOperator_matches (Some (Between a b)) v = (a \<le> v \<and> v \<le> b)"
| "FindOperator_matches (Some (MoreThanOrEqual a)) v = (a \<le> v)"
| "FindOperator_matches (Some (LessThanOrEqual b)) v = (v \<le> b)"

section \<open>Query descriptions\<close>

text \<open>
  The query builder composes a description of one SQL statement; nothing is sent to the
  store. The description keeps what the builder calls put into it: common table
  expressions, the table selected from, joins, selections and \<^verbatim>\<open>WHERE\<close>
  conditions, each in call order, and the plugins of the connection.
\<close>

datatype val = VNull | VBool bool | VDate int | VStr string | VBytes "nat list"

datatype cmp = Eq | Ne | Le | Ge | ILike

text \<open>
  An operand is a column reference (\<open>Col table column\<close>, or \<open>UCol column\<close> when the
  source gives no table), a bound value, or one of the raw SQL fragments of the source:
  \<^verbatim>\<open>${id}::uuid\<close>, \<^verbatim>\<open>any(${ids}::uuid[])\<close> and \<^verbatim>\<open>f_unaccent(...)\<close>.
  The third argument of the builder's \<^verbatim>\<open>where(lhs, op, rhs)\<close> is a bound value
  unless it is an expression; \<^verbatim>\<open>whereRef(lhs, op, rhs)\<close> takes a column reference.
\<close>

datatype expr =
    Col string string
  | UCol string
  | Value val
  | SqlUuid string
  | SqlAnyUuid "string list"
  | FUnaccent expr

datatype cond =
    BinOp expr cmp expr
  | IsNull expr
  | IsNotNull expr
  | OrList "cond list"
  | NotExpr cond
  | ExistsFrom string "cond list"

datatype join_kind = InnerJoin | LeftJoin

datatype join = Join join_kind string expr expr

datatype sel =
    SelCol expr
  | SelTable string
  | SelRaw string
  | SelFn string "sel list"
  | SelCase cond sel sel

datatype having = HavingCount expr cmp nat

record select_query =
  sq_from :: string
  sq_alias :: string
  sq_joins :: "join list"
  sq_select :: "(sel \<times> string option) list"
  sq_where :: "cond list"
  sq_groupBy :: "expr list"
  sq_having :: "having list"

datatype selection =
    SelectAll string
  | SelectExpr sel string
  | SelectSub select_query string

datatype plugin = DeduplicateJoinsPlugin

record Kysely =
  k_plugins :: "plugin list"
  k_with :: "(string \<times> select_query) list"

record query =
  q_with :: "(string \<times> select_query) list"
  q_from :: string
  q_joins :: "join list"
  q_selections :: "selection list"
  q_where :: "cond list"
  q_plugins :: "plugin list"

subsection \<open>The builder's methods\<close>

definition withPlugin :: "Kysely \<Rightarrow> plugin \<Rightarrow> Kysely" where
  "withPlugin db p = db\<lparr>k_plugins := k_plugins db @ [p]\<rparr>"

definition with' :: "string \<Rightarrow> select_query \<Rightarrow> Kysely \<Rightarrow> Kysely" where
  "with' name sq db = db\<lparr>k_with := k_with db @ [(name, sq)]\<rparr>"

definition selectFrom :: "Kysely \<Rightarrow> string \<Rightarrow> query" where
  "selectFrom db t =
     \<lparr>q_with = k_with db, q_from = t, q_joins = [], q_selections = [], q_where = [],
      q_plugins = k_plugins db\<rparr>"

definition selectAll :: "string \<Rightarrow> query \<Rightarrow> query" where
  "selectAll t qb = qb\<lparr>q_selections := q_selections qb @ [SelectAll t]\<rparr>"

definition select :: "selection \<Rightarrow> query \<Rightarrow> query" where
  "select s qb = qb\<lparr>q_selections := q_selections qb @ [s]\<rparr>"

definition where' :: "cond \<Rightarrow> query \<Rightarrow> query" where
  "where' c qb = qb\<lparr>q_where := q_where qb @ [c]\<rparr>"

definition leftJoin :: "string \<Rightarrow> expr \<Rightarrow> expr \<Rightarrow> query \<Rightarrow> query" where
  "leftJoin t l r qb = qb\<lparr>q_joins := q_joins qb @ [Join LeftJoin t l r]\<rparr>"

definition innerJoin :: "string \<Rightarrow> expr \<Rightarrow> expr \<Rightarrow> query \<Rightarrow> query" where
  "innerJoin t l r qb = qb\<lparr>q_joins := q_joins qb @ [Join InnerJoin t l r]\<rparr>"

definition dollar_if :: "bool \<Rightarrow> (query \<Rightarrow> query) \<Rightarrow> query \<Rightarrow> query" where
  \<comment> \<open>the builder's \<^verbatim>\<open>$if(condition, func)\<close>\<close>
  "dollar_if c f qb = (if c then f qb else qb)"

definition chain :: "query \<Rightarrow> (query \<Rightarrow> query) list \<Rightarrow> query" where
  \<comment> \<open>a chain of method calls \<^verbatim>\<open>qb.m1(...).m2(...)\<close>, first call first\<close>
  "chain qb steps = foldl (\<lambda>q step. step q) qb steps"

section \<open>Relation attachers and the people-membership filter\<close>

definition asUuid :: "string \<Rightarrow> expr" where
  "asUuid i = SqlUuid i"

definition anyUuid :: "string list \<Rightarrow> expr" where
  "anyUuid ids = SqlAnyUuid ids"

definition withExif :: "query \<Rightarrow> query" where
  "withExif qb =
     chain qb
      [leftJoin ''exif'' (Col ''assets'' ''id'') (Col ''exif'' ''assetId''),
       select (SelectExpr (SelFn ''jsonb_strip_nulls'' [SelFn ''to_jsonb'' [SelTable ''exif'']])
                 ''exifInfo'')]"

definition withFacesAndPeople :: selection where
  "withFacesAndPeople =
     SelectSub
      \<lparr>sq_from = ''asset_faces'', sq_alias = ''asset_faces'',
       sq_joins = [Join LeftJoin ''person'' (Col ''person'' ''id'') (Col ''asset_faces'' ''personId'')],
       sq_select =
         [(SelFn ''jsonb_agg''
            [SelCase (IsNotNull (Col ''person'' ''id''))
               (SelFn ''jsonb_insert''
                  [SelFn ''to_jsonb'' [SelTable ''asset_faces''],
                   SelRaw (CHR 0x27 # ''{person}'' @ CHR 0x27 # ''::text[]''),
                   SelFn ''to_jsonb'' [SelTable ''person'']])
               (SelFn ''to_jsonb'' [SelTable ''asset_faces''])],
           Some ''faces'')],
       sq_where = [BinOp (Col ''asset_faces'' ''assetId'') Eq (Col ''assets'' ''id'')],
       sq_groupBy = [], sq_having = []\<rparr>
      ''faces''"

definition hasPeopleCte :: "Kysely \<Rightarrow> string list \<Rightarrow> Kysely" where
  "hasPeopleCte db personIds =
     with' ''valid''
      \<lparr>sq_from = ''asset_faces'', sq_alias = ''asset_faces'', sq_joins = [],
       sq_select = [(SelCol (UCol ''assetId''), None)],
       sq_where = [BinOp (UCol ''personId'') Eq (anyUuid personIds)],
       sq_groupBy = [UCol ''assetId''],
       sq_having = [HavingCount (UCol ''personId'') Ge (length personIds)]\<rparr>
      db"

definition hasPeople :: "Kysely \<Rightarrow> string list option \<Rightarrow> query" where
  "hasPeople db personIds =
     (if personIds \<noteq> None \<and> length (the personIds) > 0
      then innerJoin ''valid'' (Col ''valid'' ''assetId'') (Col ''assets'' ''id'')
             (selectFrom (hasPeopleCte db (the personIds)) ''assets'')
      else selectFrom db ''assets'')"

definition withStack :: "query \<Rightarrow> bool \<Rightarrow> bool option \<Rightarrow> query" where
  "withStack qb assets withDeleted =
     chain qb
      [leftJoin ''asset_stack'' (Col ''asset_stack'' ''primaryAssetId'') (Col ''assets'' ''id''),
       select (SelectExpr (SelFn ''to_json'' [SelTable ''asset_stack'']) ''stack''),
       where' (OrList [BinOp (Col ''asset_stack'' ''primaryAssetId'') Eq (Col ''assets'' ''id''),
                       IsNull (Col ''assets'' ''stackId'')]),
       dollar_if assets
        (select
          (SelectSub
            \<lparr>sq_from = ''assets'', sq_alias = ''stacked'', sq_joins = [],
             sq_select =
               [(SelRaw ''json_agg(jsonb_strip_nulls(to_jsonb(stacked)))'', Some ''stackedAssets'')],
             sq_where =
               [BinOp (Col ''asset_stack'' ''id'') Eq (Col ''assets'' ''stackId''),
                BinOp (Col ''asset_stack'' ''primaryAssetId'') Ne (Col ''assets'' ''id'')]
               @ (if \<not> truthy_b withDeleted
                  then [IsNull (Col ''stacked'' ''deletedAt'')] else []),
             sq_groupBy = [], sq_having = []\<rparr>
            ''stackedAssets''))]"

section \<open>The search query builder\<close>

text \<open>
  The options bag. Its interface declaration is not among the sources; the fields are
  those \<^verbatim>\<open>searchAssetBuilder\<close> reads, typed by their use there: flags are
  booleans, the time bounds are \<^verbatim>\<open>Date\<close> objects (milliseconds since the
  epoch), the checksum is a byte buffer, \<^verbatim>\<open>personIds\<close> and
  \<^verbatim>\<open>userIds\<close> are string arrays and the rest are strings. \<open>None\<close> is an
  unset (\<^verbatim>\<open>undefined\<close>) field.
\<close>

record AssetSearchBuilderOptions =
  isArchived :: "bool option"
  withArchived :: "bool option"
  withDeleted :: "bool option"
  trashedAfter :: "int option"
  trashedBefore :: "int option"
  personIds :: "string list option"
  createdBefore :: "int option"
  createdAfter :: "int option"
  updatedBefore :: "int option"
  updatedAfter :: "int option"
  takenBefore :: "int option"
  takenAfter :: "int option"
  city :: "string option"
  country :: "string option"
  lensModel :: "string option"
  make' :: "string option"
  model :: "string option"
  state :: "string option"
  checksum :: "nat list option"
  deviceAssetId :: "string option"
  deviceId :: "string option"
  id' :: "string option"
  libraryId :: "string option"
  userIds :: "string list option"
  encodedVideoPath :: "string option"
  originalPath :: "string option"
  previewPath :: "string option"
  thumbnailPath :: "string option"
  originalFileName :: "string option"
  isFavorite :: "bool option"
  isOffline :: "bool option"
  isVisible :: "bool option"
  type' :: "string option"
  isEncoded :: "bool option"
  isMotion :: "bool option"
  isNotInAlbum :: "bool option"
  withExif' :: "bool option"
  withFaces :: "bool option"
  withPeople :: "bool option"

definition joinDeduplicationPlugin :: plugin where
  "joinDeduplicationPlugin = DeduplicateJoinsPlugin"

text \<open>
  The first two statements assign to fields of the caller's object, so the function
  returns the options as it leaves them beside the query. \<open>the x\<close> is the source's
  non-null assertion \<^verbatim>\<open>x!\<close>.
\<close>

definition default_isArchived :: "AssetSearchBuilderOptions \<Rightarrow> AssetSearchBuilderOptions" where
  \<comment> \<open>\<^verbatim>\<open>options.isArchived ??= options.withArchived ? undefined : false\<close>\<close>
  "default_isArchived options =
     (if isArchived options = None
      then options\<lparr>isArchived := (if truthy_b (withArchived options) then None else Some False)\<rparr>
      else options)"

definition default_withDeleted :: "AssetSearchBuilderOptions \<Rightarrow> AssetSearchBuilderOptions" where
  \<comment> \<open>\<^verbatim>\<open>options.withDeleted ||= !!(options.trashedAfter || options.trashedBefore)\<close>\<close>
  "default_withDeleted options =
     (if truthy_b (withDeleted options) then options
      else options\<lparr>withDeleted :=
             Some (truthy_o (trashedAfter options) \<or> truthy_o (trashedBefore options))\<rparr>)"

definition exif_filter :: "string \<Rightarrow> string \<Rightarrow> query \<Rightarrow> query" where
  \<comment> \<open>\<^verbatim>\<open>qb.leftJoin('exif', 'assets.id', 'exif.assetId').where('exif.<column>', '=', value)\<close>\<close>
  "exif_filter column v qb =
     chain qb
      [leftJoin ''exif'' (Col ''assets'' ''id'') (Col ''exif'' ''assetId''),
       where' (BinOp (Col ''exif'' column) Eq (Value (VStr v)))]"

definition search_steps :: "AssetSearchBuilderOptions \<Rightarrow> (query \<Rightarrow> query) list" where
  "search_steps options =
    [selectAll ''assets'',
     dollar_if (truthy_o (createdBefore options))
       (\<lambda>qb. where' (BinOp (Col ''assets'' ''createdAt'') Le (Value (VDate (the (createdBefore options))))) qb),
     dollar_if (truthy_o (createdAfter options))
       (\<lambda>qb. where' (BinOp (Col ''assets'' ''createdAt'') Ge (Value (VDate (the (createdAfter options))))) qb),
     dollar_if (truthy_o (updatedBefore options))
       (\<lambda>qb. where' (BinOp (Col ''assets'' ''updatedAt'') Le (Value (VDate (the (updatedBefore options))))) qb),
     dollar_if (truthy_o (updatedAfter options))
       (\<lambda>qb. where' (BinOp (Col ''assets'' ''updatedAt'') Ge (Value (VDate (the (updatedAfter options))))) qb),
     dollar_if (truthy_o (trashedBefore options))
       (\<lambda>qb. where' (BinOp (Col ''assets'' ''deletedAt'') Le (Value (VDate (the (trashedBefore options))))) qb),
     dollar_if (truthy_o (trashedAfter options))
       (\<lambda>qb. where' (BinOp (Col ''assets'' ''deletedAt'') Ge (Value (VDate (the (trashedAfter options))))) qb),
     dollar_if (truthy_o (takenBefore options))
       (\<lambda>qb. where' (BinOp (Col ''assets'' ''fileCreatedAt'') Le (Value (VDate (the (takenBefore options))))) qb),
     dollar_if (truthy_o (takenAfter options))
       (\<lambda>qb. where' (BinOp (Col ''assets'' ''fileCreatedAt'') Ge (Value (VDate (the (takenAfter options))))) qb),
     dollar_if (truthy_s (city options)) (\<lambda>qb. exif_filter ''city'' (the (city options)) qb),
     dollar_if (truthy_s (country options)) (\<lambda>qb. exif_filter ''country'' (the (country options)) qb),
     dollar_if (truthy_s (lensModel options)) (\<lambda>qb. exif_filter ''lensModel'' (the (lensModel options)) qb),
     dollar_if (truthy_s (make' options)) (\<lambda>qb. exif_filter ''make'' (the (make' options)) qb),
     dollar_if (truthy_s (model options)) (\<lambda>qb. exif_filter ''model'' (the (model options)) qb),
     dollar_if (truthy_s (state options)) (\<lambda>qb. exif_filter ''state'' (the (state options)) qb),
     dollar_if (truthy_o (checksum options))
       (\<lambda>qb. where' (BinOp (Col ''assets'' ''checksum'') Eq (Value (VBytes (the (checksum options))))) qb),
     dollar_if (truthy_s (deviceAssetId options))
       (\<lambda>qb. where' (BinOp (Col ''assets'' ''deviceAssetId'') Eq (asUuid (the (deviceAssetId options)))) qb),
     dollar_if (truthy_s (deviceId options))
       (\<lambda>qb. where' (BinOp (Col ''assets'' ''deviceId'') Eq (asUuid (the (deviceId options)))) qb),
     dollar_if (truthy_s (id' options))
       (\<lambda>qb. where' (BinOp (Col ''assets'' ''id'') Eq (asUuid (the (id' options)))) qb),
     dollar_if (truthy_s (libraryId options))
       (\<lambda>qb. where' (BinOp (Col ''assets'' ''libraryId'') Eq (asUuid (the (libraryId options)))) qb),
     dollar_if (truthy_o (userIds options))
       (\<lambda>qb. where' (BinOp (Col ''assets'' ''ownerId'') Eq (anyUuid (the (userIds options)))) qb),
     dollar_if (truthy_s (encodedVideoPath options))
       (\<lambda>qb. where' (BinOp (Col ''assets'' ''encodedVideoPath'') Eq
                  (Value (VStr (the (encodedVideoPath options))))) qb),
     dollar_if (truthy_s (originalPath options))
       (\<lambda>qb. where' (BinOp (Col ''assets'' ''originalPath'') Eq (Value (VStr (the (originalPath options))))) qb),
     dollar_if (truthy_s (previewPath options))
       (\<lambda>qb. where' (BinOp (Col ''assets'' ''previewPath'') Eq (Value (VStr (the (previewPath options))))) qb),
     dollar_if (truthy_s (thumbnailPath options))
       (\<lambda>qb. where' (BinOp (Col ''assets'' ''thumbnailPath'') Eq (Value (VStr (the (thumbnailPath options))))) qb),
     dollar_if (truthy_s (originalFileName options))
       (\<lambda>qb. where' (BinOp (FUnaccent (Col ''assets'' ''originalFileName'')) ILike
                  (FUnaccent (Value (VStr (the (originalFileName options)))))) qb),
     dollar_if (truthy_b (isFavorite options))
       (\<lambda>qb. where' (BinOp (Col ''assets'' ''isFavorite'') Eq (Value (VBool (the (isFavorite options))))) qb),
     dollar_if (truthy_b (isOffline options))
       (\<lambda>qb. where' (BinOp (Col ''assets'' ''isOffline'') Eq (Value (VBool (the (isOffline options))))) qb),
     dollar_if (truthy_b (isVisible options))
       (\<lambda>qb. where' (BinOp (Col ''assets'' ''isVisible'') Eq (Value (VBool (the (isVisible options))))) qb),
     dollar_if (truthy_s (type' options))
       (\<lambda>qb. where' (BinOp (Col ''assets'' ''type'') Eq (Value (VStr (the (type' options))))) qb),
     dollar_if (truthy_b (isArchived options))
       (\<lambda>qb. where' (BinOp (Col ''assets'' ''isArchived'') Eq (Value (VBool (the (isArchived options))))) qb),
     dollar_if (truthy_b (isEncoded options)) (\<lambda>qb. where' (IsNotNull (Col ''assets'' ''encodedVideoPath'')) qb),
     dollar_if (truthy_b (isMotion options)) (\<lambda>qb. where' (IsNotNull (Col ''assets'' ''livePhotoVideoId'')) qb),
     dollar_if (truthy_b (isNotInAlbum options))
       (\<lambda>qb. where' (NotExpr (ExistsFrom ''albums_assets_assets''
                  [BinOp (UCol ''assetsId'') Eq (Value (VStr ''assets.id''))])) qb),
     dollar_if (truthy_b (withExif' options)) (\<lambda>qb. withExif qb),
     dollar_if (truthy_b (withFaces options) \<or> truthy_b (withPeople options)
                \<or> truthy_o (personIds options))
       (\<lambda>qb. select withFacesAndPeople qb),
     dollar_if (\<not> truthy_b (withDeleted options))
       (\<lambda>qb. where' (IsNull (Col ''assets'' ''deletedAt'')) qb)]"

definition searchAssetBuilder ::
  "Kysely \<Rightarrow> AssetSearchBuilderOptions \<Rightarrow> query \<times> AssetSearchBuilderOptions" where
  "searchAssetBuilder kysely options0 =
     (let options = default_withDeleted (default_isArchived options0)
      in (chain (hasPeople (withPlugin kysely joinDeduplicationPlugin) (personIds options))
            (search_steps options),
          options))"

section \<open>The join-deduplication plugin\<close>

text \<open>
  Modelled from the spec: the plugin class belongs to the query-builder library and is
  not among the sources. The spec's join deduplication collapses repeated identical
  joins into one, in one pass over the whole query when the statement is generated:
  a join equal to one already kept is dropped, so the first of each stays in place.
\<close>

fun removeDuplicateJoins :: "join list \<Rightarrow> join list \<Rightarrow> join list" where
  "removeDuplicateJoins out [] = out"
| "removeDuplicateJoins out (j # js) =
     removeDuplicateJoins (if j \<in> set out then out else out @ [j]) js"

definition dedup_select_query :: "select_query \<Rightarrow> select_query" where
  "dedup_select_query sq = sq\<lparr>sq_joins := removeDuplicateJoins [] (sq_joins sq)\<rparr>"

fun dedup_selection :: "selection \<Rightarrow> selection" where
  "dedup_selection (SelectSub sq a) = SelectSub (dedup_select_query sq) a"
| "dedup_selection s = s"

fun transformQuery :: "plugin \<Rightarrow> query \<Rightarrow> query" where
  "transformQuery DeduplicateJoinsPlugin q =
     q\<lparr>q_with := map (\<lambda>(name, sq). (name, dedup_select_query sq)) (q_with q),
       q_joins := removeDuplicateJoins [] (q_joins q),
       q_selections := map dedup_selection (q_selections q)\<rparr>"

definition compile :: "query \<Rightarrow> query" where
  \<comment> \<open>the generated statement: the description after the connection's plugins\<close>
  "compile q = foldl (\<lambda>q' p. transformQuery p q') q (q_plugins q)"

section \<open>What the store returns\<close>

text \<open>
  A table is a list of rows, a row gives its columns their values, and a database names
  its tables. Conditions follow SQL's three-valued logic: \<open>None\<close> is \<^emph>\<open>unknown\<close>,
  and a row is kept only where every condition is \<open>Some True\<close>. Identifiers are
  plain strings: where the store would reject an operand because it is no uuid (its
  error \<^verbatim>\<open>22P02\<close>) the comparison here is merely false, so the evaluation
  speaks for the store only on well-typed operands. A column that a row does not carry
  reads as \<^verbatim>\<open>NULL\<close>. Ordering is modelled on
  timestamps, the only values the source orders. The store's own functions
  \<^verbatim>\<open>f_unaccent\<close> and \<^verbatim>\<open>ILIKE\<close> are parameters.
\<close>

type_synonym row = "(string \<times> val) list"

type_synonym scope = "(string \<times> row) list"

type_synonym database = "(string \<times> row list) list"

record store =
  f_unaccent :: "string \<Rightarrow> string"
  ilike :: "string \<Rightarrow> string \<Rightarrow> bool"

definition table_rows :: "database \<Rightarrow> string \<Rightarrow> row list" where
  "table_rows db t = (case map_of db t of None \<Rightarrow> [] | Some rs \<Rightarrow> rs)"

definition column :: "row \<Rightarrow> string \<Rightarrow> val" where
  "column r c = (case map_of r c of None \<Rightarrow> VNull | Some v \<Rightarrow> v)"

text \<open>
  A scope lists the rows in sight, innermost first, under their aliases. A qualified
  reference reads the nearest row of that alias; an unqualified one the nearest row that
  carries the column.
\<close>

fun eval_expr :: "store \<Rightarrow> scope \<Rightarrow> expr \<Rightarrow> val" where
  "eval_expr st sc (Col t c) = (case map_of sc t of None \<Rightarrow> VNull | Some r \<Rightarrow> column r c)"
| "eval_expr st sc (UCol c) =
     (case find (\<lambda>tr. map_of (snd tr) c \<noteq> None) sc of None \<Rightarrow> VNull
      | Some tr \<Rightarrow> column (snd tr) c)"
| "eval_expr st sc (Value v) = v"
| "eval_expr st sc (SqlUuid s) = VStr s"
| "eval_expr st sc (SqlAnyUuid ids) = VNull"
| "eval_expr st sc (FUnaccent e) =
     (case eval_expr st sc e of VStr s \<Rightarrow> VStr (f_unaccent st s) | _ \<Rightarrow> VNull)"

fun compare_val :: "store \<Rightarrow> cmp \<Rightarrow> val \<Rightarrow> val \<Rightarrow> bool option" where
  "compare_val st c VNull w = None"
| "compare_val st c v VNull = None"
| "compare_val st Eq v w = Some (v = w)"
| "compare_val st Ne v w = Some (v \<noteq> w)"
| "compare_val st Le (VDate a) (VDate b) = Some (a \<le> b)"
| "compare_val st Ge (VDate a) (VDate b) = Some (a \<ge> b)"
| "compare_val st ILike (VStr a) (VStr b) = Some (ilike st a b)"
| "compare_val st c v w = None"

definition or3 :: "bool option list \<Rightarrow> bool option" where
  "or3 bs = (if Some True \<in> set bs then Some True
             else if None \<in> set bs then None else Some False)"

fun eval_cond :: "store \<Rightarrow> database \<Rightarrow> scope \<Rightarrow> cond \<Rightarrow> bool option" where
  "eval_cond st db sc (BinOp l c (SqlAnyUuid ids)) =
     (if ids = [] then Some False
      else case eval_expr st sc l of VNull \<Rightarrow> None
           | v \<Rightarrow> Some (list_ex (\<lambda>i. compare_val st c v (VStr i) = Some True) ids))"
| "eval_cond st db sc (BinOp l c r) = compare_val st c (eval_expr st sc l) (eval_expr st sc r)"
| "eval_cond st db sc (IsNull e) = Some (eval_expr st sc e = VNull)"
| "eval_cond st db sc (IsNotNull e) = Some (eval_expr st sc e \<noteq> VNull)"
| "eval_cond st db sc (OrList cs) = or3 (map (eval_cond st db sc) cs)"
| "eval_cond st db sc (NotExpr c) = map_option Not (eval_cond st db sc c)"
| "eval_cond st db sc (ExistsFrom t cs) =
     Some (list_ex (\<lambda>r. list_all (\<lambda>c. eval_cond st db ((t, r) # sc) c = Some True) cs)
             (table_rows db t))"

definition holds_all :: "store \<Rightarrow> database \<Rightarrow> cond list \<Rightarrow> scope \<Rightarrow> bool" where
  "holds_all st db cs sc = list_all (\<lambda>c. eval_cond st db sc c = Some True) cs"

text \<open>
  A join extends each row in sight by the rows of the joined table that meet the
  \<^verbatim>\<open>ON\<close> condition; a left join keeps a row without a partner, beside an
  all-\<^verbatim>\<open>NULL\<close> row.
\<close>

fun apply_join :: "store \<Rightarrow> database \<Rightarrow> scope list \<Rightarrow> join \<Rightarrow> scope list" where
  "apply_join st db scs (Join k t l r) =
     concat (map (\<lambda>sc.
       (let partners = filter (\<lambda>row. eval_cond st db ((t, row) # sc) (BinOp l Eq r) = Some True)
                         (table_rows db t)
        in if partners = [] \<and> k = LeftJoin then [(t, []) # sc]
           else map (\<lambda>row. (t, row) # sc) partners)) scs)"

definition select_rows :: "store \<Rightarrow> database \<Rightarrow> scope \<Rightarrow> select_query \<Rightarrow> scope list" where
  \<comment> \<open>the rows of a sub-select, read inside the row \<open>outer\<close> of the enclosing query\<close>
  "select_rows st db outer sq =
     filter (holds_all st db (sq_where sq))
       (foldl (apply_join st db)
          (map (\<lambda>r. (sq_alias sq, r) # outer) (table_rows db (sq_from sq)))
          (sq_joins sq))"

fun compare_count :: "cmp \<Rightarrow> nat \<Rightarrow> nat \<Rightarrow> bool" where
  "compare_count Eq m n = (m = n)"
| "compare_count Ne m n = (m \<noteq> n)"
| "compare_count Le m n = (m \<le> n)"
| "compare_count Ge m n = (m \<ge> n)"
| "compare_count ILike m n = False"

fun eval_having :: "store \<Rightarrow> scope list \<Rightarrow> having \<Rightarrow> bool" where
  \<comment> \<open>\<^verbatim>\<open>count(e)\<close> counts the rows of the group where \<open>e\<close> is not \<^verbatim>\<open>NULL\<close>\<close>
  "eval_having st grp (HavingCount e c n) =
     compare_count c (length (filter (\<lambda>sc. eval_expr st sc e \<noteq> VNull) grp)) n"

fun sel_name :: "(sel \<times> string option) \<Rightarrow> string" where
  "sel_name (s, Some a) = a"
| "sel_name (SelCol (Col t c), None) = c"
| "sel_name (SelCol (UCol c), None) = c"
| "sel_name (s, None) = []"

fun sel_value :: "store \<Rightarrow> scope \<Rightarrow> (sel \<times> string option) \<Rightarrow> val" where
  "sel_value st sc (SelCol e, a) = eval_expr st sc e"
| "sel_value st sc (s, a) = VNull"

definition project :: "store \<Rightarrow> select_query \<Rightarrow> scope \<Rightarrow> row" where
  "project st sq sc = map (\<lambda>s. (sel_name s, sel_value st sc s)) (sq_select sq)"

definition group_key :: "store \<Rightarrow> select_query \<Rightarrow> scope \<Rightarrow> val list" where
  "group_key st sq sc = map (eval_expr st sc) (sq_groupBy sq)"

definition table_of_select :: "store \<Rightarrow> database \<Rightarrow> select_query \<Rightarrow> row list" where
  \<comment> \<open>the table a common table expression stands for: one row per group that passes
      \<^verbatim>\<open>HAVING\<close> when the query groups, one per row otherwise\<close>
  "table_of_select st db sq =
     (let rows = select_rows st db [] sq in
      if sq_groupBy sq = [] then map (project st sq) rows
      else concat (map (\<lambda>k.
             (let grp = filter (\<lambda>sc. group_key st sq sc = k) rows in
              if list_all (eval_having st grp) (sq_having sq)
              then (case grp of [] \<Rightarrow> [] | sc # _ \<Rightarrow> [project st sq sc]) else []))
             (remdups (map (group_key st sq) rows))))"

definition with_tables :: "store \<Rightarrow> database \<Rightarrow> (string \<times> select_query) list \<Rightarrow> database" where
  "with_tables st db ctes =
     foldl (\<lambda>d cte. (fst cte, table_of_select st d (snd cte)) # d) db ctes"

definition run_query :: "store \<Rightarrow> database \<Rightarrow> query \<Rightarrow> scope list" where
  "run_query st db q =
     (let db' = with_tables st db (q_with q) in
      filter (holds_all st db' (q_where q))
        (foldl (apply_join st db')
           (map (\<lambda>r. [(q_from q, r)]) (table_rows db' (q_from q)))
           (q_joins q)))"

definition execute :: "store \<Rightarrow> database \<Rightarrow> query \<Rightarrow> scope list" where
  "execute st db q = run_query st db (compile q)"

definition row_of :: "string \<Rightarrow> scope \<Rightarrow> row" where
  "row_of t sc = (case map_of sc t of None \<Rightarrow> [] | Some r \<Rightarrow> r)"

definition returned_assets :: "store \<Rightarrow> database \<Rightarrow> query \<Rightarrow> row list" where
  \<comment> \<open>the \<^verbatim>\<open>assets\<close> columns of the rows a query returns\<close>
  "returned_assets st db q = map (row_of ''assets'') (execute st db q)"

fun subselect_of :: "string \<Rightarrow> selection list \<Rightarrow> select_query option" where
  "subselect_of a [] = None"
| "subselect_of a (SelectSub sq b # ss) = (if a = b then Some sq else subselect_of a ss)"
| "subselect_of a (s # ss) = subselect_of a ss"

definition aggregated :: "store \<Rightarrow> database \<Rightarrow> query \<Rightarrow> string \<Rightarrow> (row \<times> row list) list" where
  \<comment> \<open>for each returned asset, the rows that the sub-select selected as \<open>a\<close> aggregates\<close>
  "aggregated st db q a =
     (case subselect_of a (q_selections (compile q)) of None \<Rightarrow> []
      | Some sq \<Rightarrow>
          map (\<lambda>sc. (row_of ''assets'' sc,
                     map (row_of (sq_alias sq))
                       (select_rows st (with_tables st db (q_with (compile q))) sc sq)))
            (execute st db q))"

section \<open>The migration \<^verbatim>\<open>AddAssetFilesTable1723859965844\<close>\<close>

text \<open>
  The migration changes the schema, so here a table has its list of columns beside its
  rows, and each statement is a function on the database that fails as the store would:
  a table that exists already or is missing, a column that is missing or exists already,
  a \<^verbatim>\<open>NOT NULL\<close> column left empty, a row that breaks the unique index
  \<^verbatim>\<open>UQ_assetId_type\<close> or the foreign key. The query runner sends the statements
  one after the other and stops at the first failure. The values the store generates for
  \<^verbatim>\<open>id\<close>, \<^verbatim>\<open>createdAt\<close> and \<^verbatim>\<open>updatedAt\<close> of a new row of
  \<^verbatim>\<open>asset_files\<close> are left out of the row; the columns are in the table's list.
\<close>

datatype store_error =
    RelationExists string
  | RelationMissing string
  | ColumnExists string string
  | ColumnMissing string string
  | NotNullViolation string string
  | UniqueViolation string
  | ForeignKeyViolation string

record relation =
  rel_columns :: "string list"
  rel_rows :: "row list"

type_synonym catalog = "(string \<times> relation) list"

type_synonym statement = "catalog \<Rightarrow> store_error + catalog"

fun run_statements :: "statement list \<Rightarrow> catalog \<Rightarrow> store_error + catalog" where
  "run_statements [] db = Inr db"
| "run_statements (s # ss) db =
     (case s db of Inl e \<Rightarrow> Inl e | Inr db' \<Rightarrow> run_statements ss db')"

text \<open>
  The statements name a column in two ways. A name in double quotes,
  \<^verbatim>\<open>"assetId"\<close>, is the column of exactly that name. A name without quotes,
  \<^verbatim>\<open>assetId\<close>, is folded to lower case by the store before it is looked up, so it
  is the column \<^verbatim>\<open>assetid\<close>. A name that is no column of the table is the store's
  error \<^verbatim>\<open>42703\<close> (undefined column), raised when the statement is analysed,
  whatever rows the table holds. The tables are named in quotes throughout.
\<close>

datatype ident = Quoted string | Bare string

definition lower_char :: "char \<Rightarrow> char" where
  "lower_char c =
     (case map_of (zip ''ABCDEFGHIJKLMNOPQRSTUVWXYZ'' ''abcdefghijklmnopqrstuvwxyz'') c of
        None \<Rightarrow> c | Some l \<Rightarrow> l)"

fun column_name :: "ident \<Rightarrow> string" where
  "column_name (Quoted s) = s"
| "column_name (Bare s) = map lower_char s"

definition resolve :: "string \<Rightarrow> relation \<Rightarrow> ident \<Rightarrow> store_error + string" where
  \<comment> \<open>the column of table \<open>t\<close> that the identifier denotes\<close>
  "resolve t rel i =
     (if column_name i \<in> set (rel_columns rel) then Inr (column_name i)
      else Inl (ColumnMissing t (column_name i)))"

definition file_key :: "row \<Rightarrow> val \<times> val" where
  \<comment> \<open>the columns of the unique index \<^verbatim>\<open>UQ_assetId_type\<close>\<close>
  "file_key f = (column f ''assetId'', column f ''type'')"

definition create_asset_files :: statement where
  \<comment> \<open>\<^verbatim>\<open>CREATE TABLE "asset_files" ("id" ..., "assetId" ..., "createdAt" ..., "updatedAt" ..., "deletedAt" ..., "type" ..., "path" ..., ...)\<close>\<close>
  "create_asset_files db =
     (if map_of db ''asset_files'' \<noteq> None then Inl (RelationExists ''asset_files'')
      else Inr (db @ [(''asset_files'',
             \<lparr>rel_columns = [''id'', ''assetId'', ''createdAt'', ''updatedAt'', ''deletedAt'',
                             ''type'', ''path''],
              rel_rows = []\<rparr>)]))"

definition create_unique_index :: statement where
  \<comment> \<open>\<^verbatim>\<open>CREATE UNIQUE INDEX "UQ_assetId_type" ON "asset_files" ("assetId", "type")\<close>\<close>
  "create_unique_index db =
     (case map_of db ''asset_files'' of None \<Rightarrow> Inl (RelationMissing ''asset_files'')
      | Some files \<Rightarrow>
     (case resolve ''asset_files'' files (Quoted ''assetId'') of Inl e \<Rightarrow> Inl e
      | Inr asset_c \<Rightarrow>
     (case resolve ''asset_files'' files (Quoted ''type'') of Inl e \<Rightarrow> Inl e
      | Inr type_c \<Rightarrow>
          if distinct (map (\<lambda>f. (column f asset_c, column f type_c)) (rel_rows files)) then Inr db
          else Inl (UniqueViolation ''UQ_assetId_type''))))"

definition add_foreign_key :: statement where
  \<comment> \<open>\<^verbatim>\<open>ALTER TABLE "asset_files" ADD CONSTRAINT ... FOREIGN KEY ("assetId") REFERENCES "assets"("id") ...\<close>\<close>
  "add_foreign_key db =
     (case map_of db ''asset_files'' of None \<Rightarrow> Inl (RelationMissing ''asset_files'')
      | Some files \<Rightarrow>
     (case map_of db ''assets'' of None \<Rightarrow> Inl (RelationMissing ''assets'')
      | Some assets \<Rightarrow>
     (case resolve ''asset_files'' files (Quoted ''assetId'') of Inl e \<Rightarrow> Inl e
      | Inr asset_c \<Rightarrow>
     (case resolve ''assets'' assets (Quoted ''id'') of Inl e \<Rightarrow> Inl e
      | Inr id_c \<Rightarrow>
          if list_all (\<lambda>f. column f asset_c \<in> set (map (\<lambda>r. column r id_c) (rel_rows assets)))
               (rel_rows files)
          then Inr db
          else Inl (ForeignKeyViolation ''FK_e3e103a5f1d8bc8402999286040'')))))"

definition legacy_path_set :: "string \<Rightarrow> row \<Rightarrow> bool" where
  \<comment> \<open>\<^verbatim>\<open>WHERE "<column>" IS NOT NULL AND "<column>" != ''\<close>\<close>
  "legacy_path_set c r = (column r c \<noteq> VNull \<and> column r c \<noteq> VStr [])"

definition file_row :: "string \<Rightarrow> string \<Rightarrow> row \<Rightarrow> row" where
  \<comment> \<open>\<^verbatim>\<open>SELECT "id", '<type>', "<column>"\<close> into \<^verbatim>\<open>("assetId", "type", "path")\<close>\<close>
  "file_row ty c r =
     [(''assetId'', column r ''id''), (''type'', VStr ty), (''path'', column r c),
      (''deletedAt'', VNull)]"

definition insert_asset_files :: "string \<Rightarrow> string \<Rightarrow> statement" where
  \<comment> \<open>\<^verbatim>\<open>INSERT INTO "asset_files" ("assetId", "type", "path") SELECT "id", '<type>', "<column>" FROM "assets" WHERE ...\<close>\<close>
  "insert_asset_files ty c db =
     (case map_of db ''asset_files'' of None \<Rightarrow> Inl (RelationMissing ''asset_files'')
      | Some files \<Rightarrow>
     (case map_of db ''assets'' of None \<Rightarrow> Inl (RelationMissing ''assets'')
      | Some assets \<Rightarrow>
          if ''assetId'' \<notin> set (rel_columns files) then Inl (ColumnMissing ''asset_files'' ''assetId'')
          else if ''type'' \<notin> set (rel_columns files) then Inl (ColumnMissing ''asset_files'' ''type'')
          else if ''path'' \<notin> set (rel_columns files) then Inl (ColumnMissing ''asset_files'' ''path'')
          else if ''id'' \<notin> set (rel_columns assets) then Inl (ColumnMissing ''assets'' ''id'')
          else if c \<notin> set (rel_columns assets) then Inl (ColumnMissing ''assets'' c)
          else let new = map (file_row ty c) (filter (legacy_path_set c) (rel_rows assets)) in
            if list_ex (\<lambda>f. column f ''assetId'' = VNull) new
              then Inl (NotNullViolation ''asset_files'' ''assetId'')
            else if \<not> distinct (map file_key (rel_rows files @ new))
              then Inl (UniqueViolation ''UQ_assetId_type'')
            else Inr (AList.update ''asset_files'' (files\<lparr>rel_rows := rel_rows files @ new\<rparr>) db)))"

definition drop_column :: "string \<Rightarrow> string \<Rightarrow> statement" where
  \<comment> \<open>\<^verbatim>\<open>ALTER TABLE "<table>" DROP COLUMN "<column>"\<close>\<close>
  "drop_column t c db =
     (case map_of db t of None \<Rightarrow> Inl (RelationMissing t)
      | Some rel \<Rightarrow>
          if c \<notin> set (rel_columns rel) then Inl (ColumnMissing t c)
          else Inr (AList.update t
                 \<lparr>rel_columns = removeAll c (rel_columns rel),
                  rel_rows = map (AList.delete c) (rel_rows rel)\<rparr> db))"

definition add_column :: "string \<Rightarrow> string \<Rightarrow> val \<Rightarrow> statement" where
  \<comment> \<open>\<^verbatim>\<open>ALTER TABLE "<table>" ADD "<column>" character varying [DEFAULT <value>]\<close>\<close>
  "add_column t c dflt db =
     (case map_of db t of None \<Rightarrow> Inl (RelationMissing t)
      | Some rel \<Rightarrow>
          if c \<in> set (rel_columns rel) then Inl (ColumnExists t c)
          else Inr (AList.update t
                 \<lparr>rel_columns = rel_columns rel @ [c],
                  rel_rows = map (AList.update c dflt) (rel_rows rel)\<rparr> db))"

definition file_of :: "string \<Rightarrow> string \<Rightarrow> string \<Rightarrow> string \<Rightarrow> row list \<Rightarrow> row \<Rightarrow> row option" where
  \<comment> \<open>\<^verbatim>\<open>FROM "asset_files" WHERE "assets".<id_c> = "asset_files".<asset_c> AND "asset_files".<type_c> = '<type>'\<close>\<close>
  "file_of id_c asset_c type_c ty fs r =
     find (\<lambda>f. column r id_c \<noteq> VNull \<and> column r id_c = column f asset_c
               \<and> column f type_c = VStr ty) fs"

definition restored_row ::
  "string \<Rightarrow> string \<Rightarrow> string \<Rightarrow> string \<Rightarrow> string \<Rightarrow> string \<Rightarrow> row list \<Rightarrow> row \<Rightarrow> row" where
  \<comment> \<open>a row with a partner in \<^verbatim>\<open>asset_files\<close> takes the partner's path; the others stay\<close>
  "restored_row target_c path_c id_c asset_c type_c ty fs r =
     (case file_of id_c asset_c type_c ty fs r of None \<Rightarrow> r
      | Some f \<Rightarrow> AList.update target_c (column f path_c) r)"

definition restore_path :: "string \<Rightarrow> string \<Rightarrow> statement" where
  \<comment> \<open>\<^verbatim>\<open>UPDATE "assets" SET "<column>" = "asset_files".path FROM "asset_files" WHERE "assets".id = "asset_files".assetId AND "asset_files".type = '<type>'\<close>\<close>
  "restore_path ty c db =
     (case map_of db ''assets'' of None \<Rightarrow> Inl (RelationMissing ''assets'')
      | Some assets \<Rightarrow>
     (case map_of db ''asset_files'' of None \<Rightarrow> Inl (RelationMissing ''asset_files'')
      | Some files \<Rightarrow>
     (case resolve ''assets'' assets (Quoted c) of Inl e \<Rightarrow> Inl e
      | Inr target_c \<Rightarrow>
     (case resolve ''asset_files'' files (Bare ''path'') of Inl e \<Rightarrow> Inl e
      | Inr path_c \<Rightarrow>
     (case resolve ''assets'' assets (Bare ''id'') of Inl e \<Rightarrow> Inl e
      | Inr id_c \<Rightarrow>
     (case resolve ''asset_files'' files (Bare ''assetId'') of Inl e \<Rightarrow> Inl e
      | Inr asset_c \<Rightarrow>
     (case resolve ''asset_files'' files (Bare ''type'') of Inl e \<Rightarrow> Inl e
      | Inr type_c \<Rightarrow>
          Inr (AList.update ''assets''
                 (assets\<lparr>rel_rows :=
                    map (restored_row target_c path_c id_c asset_c type_c ty (rel_rows files))
                      (rel_rows assets)\<rparr>) db))))))))"

definition drop_foreign_key :: statement where
  \<comment> \<open>\<^verbatim>\<open>ALTER TABLE "asset_files" DROP CONSTRAINT "FK_e3e103a5f1d8bc8402999286040"\<close>\<close>
  "drop_foreign_key db =
     (if map_of db ''asset_files'' = None then Inl (RelationMissing ''asset_files'') else Inr db)"

definition drop_table :: "string \<Rightarrow> statement" where
  \<comment> \<open>\<^verbatim>\<open>DROP TABLE "<table>"\<close>\<close>
  "drop_table t db =
     (if map_of db t = None then Inl (RelationMissing t) else Inr (AList.delete t db))"

definition up :: statement where
  "up =
     run_statements
      [create_asset_files,
       create_unique_index,
       add_foreign_key,
       insert_asset_files ''preview'' ''previewPath'',
       drop_column ''assets'' ''previewPath'',
       insert_asset_files ''thumbnail'' ''thumbnailPath'',
       drop_column ''assets'' ''thumbnailPath'']"

definition down :: statement where
  "down =
     run_statements
      [add_column ''assets'' ''previewPath'' VNull,
       restore_path ''preview'' ''previewPath'',
       add_column ''assets'' ''thumbnailPath'' (VStr []),
       restore_path ''thumbnail'' ''thumbnailPath'',
       drop_foreign_key,
       drop_table ''asset_files'']"

definition up_then_down :: statement where
  "up_then_down db = (case up db of Inl e \<Rightarrow> Inl e | Inr db' \<Rightarrow> down db')"

definition asset_column :: "catalog \<Rightarrow> val \<Rightarrow> string \<Rightarrow> val option" where
  \<comment> \<open>the column \<open>c\<close> of the asset whose \<^verbatim>\<open>id\<close> is \<open>i\<close>, if there is one\<close>
  "asset_column db i c =
     (case map_of db ''assets'' of None \<Rightarrow> None
      | Some assets \<Rightarrow>
          map_option (\<lambda>r. column r c) (find (\<lambda>r. column r ''id'' = i) (rel_rows assets)))"

definition column_after :: "statement \<Rightarrow> catalog \<Rightarrow> val \<Rightarrow> string \<Rightarrow> store_error + val option" where
  \<comment> \<open>the column \<open>c\<close> of the asset \<open>i\<close> once the statement has run, or the statement's failure\<close>
  "column_after s db i c = (case s db of Inl e \<Rightarrow> Inl e | Inr db' \<Rightarrow> Inr (asset_column db' i c))"

definition columns_after :: "statement \<Rightarrow> catalog \<Rightarrow> string \<Rightarrow> store_error + string list option" where
  \<comment> \<open>the columns of the table \<open>t\<close> once the statement has run, or the statement's failure\<close>
  "columns_after s db t =
     (case s db of Inl e \<Rightarrow> Inl e | Inr db' \<Rightarrow> Inr (map_option rel_columns (map_of db' t)))"

section \<open>Example data\<close>

definition no_options :: AssetSearchBuilderOptions where
  \<comment> \<open>the options bag \<^verbatim>\<open>{}\<close>\<close>
  "no_options =
     \<lparr>isArchived = None, withArchived = None, withDeleted = None, trashedAfter = None,
      trashedBefore = None, personIds = None, createdBefore = None, createdAfter = None,
      updatedBefore = None, updatedAfter = None, takenBefore = None, takenAfter = None,
      city = None, country = None, lensModel = None, make' = None, model = None, state = None,
      checksum = None, deviceAssetId = None, deviceId = None, id' = None, libraryId = None,
      userIds = None, encodedVideoPath = None, originalPath = None, previewPath = None,
      thumbnailPath = None, originalFileName = None, isFavorite = None, isOffline = None,
      isVisible = None, type' = None, isEncoded = None, isMotion = None, isNotInAlbum = None,
      withExif' = None, withFaces = None, withPeople = None\<rparr>"

definition plain_kysely :: Kysely where
  \<comment> \<open>a connection without plugins or common table expressions\<close>
  "plain_kysely = \<lparr>k_plugins = [], k_with = []\<rparr>"

definition plain_store :: store where
  \<comment> \<open>stand-ins for the store's functions; no example below calls them\<close>
  "plain_store = \<lparr>f_unaccent = (\<lambda>s. s), ilike = (\<lambda>a b. a = b)\<rparr>"

definition library_db :: database where
  \<comment> \<open>an archived asset that is in an album, a plain asset, and a soft-deleted asset\<close>
  "library_db =
     [(''assets'',
        [[(''id'', VStr ''a1''), (''isArchived'', VBool True), (''deletedAt'', VNull)],
         [(''id'', VStr ''a2''), (''isArchived'', VBool False), (''deletedAt'', VNull)],
         [(''id'', VStr ''a3''), (''isArchived'', VBool False), (''deletedAt'', VDate 1700000000000)]]),
      (''albums_assets_assets'', [[(''albumsId'', VStr ''x1''), (''assetsId'', VStr ''a1'')]])]"

definition faces_db :: database where
  \<comment> \<open>asset \<open>a1\<close> shows person \<open>p1\<close> in two faces; asset \<open>a2\<close> shows \<open>p1\<close> and \<open>p2\<close>\<close>
  "faces_db =
     [(''assets'',
        [[(''id'', VStr ''a1''), (''deletedAt'', VNull)],
         [(''id'', VStr ''a2''), (''deletedAt'', VNull)]]),
      (''asset_faces'',
        [[(''id'', VStr ''f1''), (''assetId'', VStr ''a1''), (''personId'', VStr ''p1'')],
         [(''id'', VStr ''f2''), (''assetId'', VStr ''a1''), (''personId'', VStr ''p1'')],
         [(''id'', VStr ''f3''), (''assetId'', VStr ''a2''), (''personId'', VStr ''p1'')],
         [(''id'', VStr ''f4''), (''assetId'', VStr ''a2''), (''personId'', VStr ''p2'')]])]"

definition stack_db :: database where
  \<comment> \<open>a stack with primary \<open>a\<close> and siblings \<open>b\<close> and \<open>c\<close>, of which \<open>c\<close> is soft-deleted\<close>
  "stack_db =
     [(''assets'',
        [[(''id'', VStr ''a''), (''stackId'', VStr ''s''), (''deletedAt'', VNull)],
         [(''id'', VStr ''b''), (''stackId'', VStr ''s''), (''deletedAt'', VNull)],
         [(''id'', VStr ''c''), (''stackId'', VStr ''s''), (''deletedAt'', VDate 1700000000000)]]),
      (''asset_stack'', [[(''id'', VStr ''s''), (''primaryAssetId'', VStr ''a'')]])]"

definition legacy_db :: catalog where
  \<comment> \<open>before the migration: one asset with a preview path, one with an empty one, one with none\<close>
  "legacy_db =
     [(''assets'',
        \<lparr>rel_columns = [''id'', ''previewPath'', ''thumbnailPath''],
         rel_rows =
           [[(''id'', VStr ''a1''), (''previewPath'', VStr ''upload/a1.jpeg''),
             (''thumbnailPath'', VStr ''upload/a1.webp'')],
            [(''id'', VStr ''a2''), (''previewPath'', VStr []), (''thumbnailPath'', VNull)],
            [(''id'', VStr ''a3''), (''previewPath'', VNull), (''thumbnailPath'', VStr [])]]\<rparr>)]"

section \<open>Notions used in the statements\<close>

fun join_table :: "join \<Rightarrow> string" where
  "join_table (Join k t l r) = t"

definition joins_to :: "string \<Rightarrow> query \<Rightarrow> join list" where
  \<comment> \<open>the joins of a query to the relation \<open>t\<close>\<close>
  "joins_to t q = filter (\<lambda>j. join_table j = t) (q_joins q)"

definition exif_filters_set :: "AssetSearchBuilderOptions \<Rightarrow> nat" where
  \<comment> \<open>how many of the filters on EXIF columns the options set\<close>
  "exif_filters_set options =
     length (filter truthy_s
       [city options, country options, lensModel options, make' options, model options,
        state options])"


definition files_columns :: "catalog \<Rightarrow> string list option" where
  \<comment> \<open>the columns of \<^verbatim>\<open>asset_files\<close>, if the table exists\<close>
  "files_columns db = map_option rel_columns (map_of db ''asset_files'')"

definition assets_columns :: "catalog \<Rightarrow> string list option" where
  \<comment> \<open>the columns of \<^verbatim>\<open>assets\<close>, if the table exists\<close>
  "assets_columns db = map_option rel_columns (map_of db ''assets'')"

section \<open>Properties of \<^verbatim>\<open>OptionalBetween\<close>\<close>

lemma truthy_opt_simps:
  "truthy_opt truthy None = False"
  "truthy_opt truthy (Some v) = truthy v"
  by (simp_all add: truthy_opt_def)

lemma OptionalBetween_absent: "OptionalBetween truthy None None = None"
  by (simp add: OptionalBetween_def truthy_opt_simps)

lemma OptionalBetween_from_only:
  "truthy a \<Longrightarrow> OptionalBetween truthy (Some a) None = Some (MoreThanOrEqual a)"
  by (simp add: OptionalBetween_def truthy_opt_simps)

lemma OptionalBetween_to_only:
  "truthy b \<Longrightarrow> OptionalBetween truthy None (Some b) = Some (LessThanOrEqual b)"
  by (simp add: OptionalBetween_def truthy_opt_simps)

lemma OptionalBetween_both:
  "truthy a \<Longrightarrow> truthy b \<Longrightarrow> OptionalBetween truthy (Some a) (Some b) = Some (Between a b)"
  by (simp add: OptionalBetween_def truthy_opt_simps)

text \<open>
  Where the function keeps its word: without bounds it returns \<^verbatim>\<open>undefined\<close>,
  which constrains nothing, and for bounds that JavaScript finds truthy it returns the
  operator for exactly the values \<open>\<ge> a\<close>, exactly the values \<open>\<le> b\<close>, or exactly the
  closed interval from \<open>a\<close> to \<open>b\<close>.
\<close>

lemma OptionalBetween_truthy_bounds:
  fixes a b v :: "'a::linorder"
  shows "OptionalBetween truthy None None = None
    \<and> FindOperator_matches (OptionalBetween truthy None None) v
    \<and> (truthy a \<longrightarrow>
          (FindOperator_matches (OptionalBetween truthy (Some a) None) v \<longleftrightarrow> a \<le> v))
    \<and> (truthy b \<longrightarrow>
          (FindOperator_matches (OptionalBetween truthy None (Some b)) v \<longleftrightarrow> v \<le> b))
    \<and> (truthy a \<and> truthy b \<longrightarrow>
          (FindOperator_matches (OptionalBetween truthy (Some a) (Some b)) v
             \<longleftrightarrow> a \<le> v \<and> v \<le> b))"
  by (simp add: OptionalBetween_absent OptionalBetween_from_only OptionalBetween_to_only
      OptionalBetween_both)

text \<open>Objects are always truthy, so for \<^verbatim>\<open>Date\<close> bounds nothing is lost.\<close>

lemma OptionalBetween_object_bounds:
  fixes a b v :: "'a::linorder"
  shows "(FindOperator_matches (OptionalBetween js_truthy_object (Some a) None) v \<longleftrightarrow> a \<le> v)
    \<and> (FindOperator_matches (OptionalBetween js_truthy_object None (Some b)) v \<longleftrightarrow> v \<le> b)
    \<and> (FindOperator_matches (OptionalBetween js_truthy_object (Some a) (Some b)) v
          \<longleftrightarrow> a \<le> v \<and> v \<le> b)"
  by (simp add: OptionalBetween_from_only OptionalBetween_to_only OptionalBetween_both
      js_truthy_object_def)

text \<open>
  Claim C3, evaluated. The function is generic, and a bound that is present but falsy is
  taken for an absent one. \<^verbatim>\<open>OptionalBetween(0, undefined)\<close> on numbers specifies
  one parameter, yet the result is \<^verbatim>\<open>undefined\<close> and not
  \<^verbatim>\<open>MoreThanOrEqual(0)\<close>, so the value \<open>-1\<close> is admitted although it is not
  \<open>\<ge> 0\<close>; \<^verbatim>\<open>OptionalBetween(0, 5)\<close> specifies both, yet the result is
  \<^verbatim>\<open>LessThanOrEqual(5)\<close> and not \<^verbatim>\<open>Between(0, 5)\<close>;
  \<^verbatim>\<open>OptionalBetween(undefined, 0)\<close> is \<^verbatim>\<open>undefined\<close> as well.
\<close>

theorem OptionalBetween_zero_bound_ignored:
  "OptionalBetween js_truthy_number (Some (Num 0)) None = None
   \<and> OptionalBetween js_truthy_number (Some (Num 0)) None \<noteq> Some (MoreThanOrEqual (Num 0))
   \<and> OptionalBetween js_truthy_number None (Some (Num 0)) = None
   \<and> OptionalBetween js_truthy_number (Some (Num 0)) (Some (Num 5)) = Some (LessThanOrEqual (Num 5))
   \<and> FindOperator_matches (OptionalBetween (\<lambda>n. js_truthy_number (Num n)) (Some 0) None) (- 1)
   \<and> \<not> (0::int) \<le> - 1"
  by (simp add: OptionalBetween_def truthy_opt_simps)

section \<open>Properties of the search query builder\<close>

subsection \<open>What each call adds to the description\<close>

lemma chain_simps:
  "chain q [] = q"
  "chain q (s # ss) = chain (s q) ss"
  by (simp_all add: chain_def)

lemma truthy_simps:
  "truthy_b None = False" "truthy_b (Some b) = b"
  "truthy_s None = False" "truthy_s (Some s) = (s \<noteq> [])"
  "truthy_o None = False" "truthy_o (Some x) = True"
  by (simp_all add: truthy_b_def truthy_s_def truthy_o_def truthy_opt_def
      js_truthy_boolean_def js_truthy_string_def js_truthy_object_def)

lemma dollar_if_simps:
  "dollar_if True f = f"
  "dollar_if False f = (\<lambda>q. q)"
  by (simp_all add: dollar_if_def fun_eq_iff)

lemmas step_defs =
  dollar_if_def selectAll_def where'_def exif_filter_def withExif_def select_def leftJoin_def
  chain_def

lemma q_where_steps:
  "q_where (selectAll t q) = q_where q"
  "q_where (dollar_if c (where' cnd) q) = q_where q @ (if c then [cnd] else [])"
  "q_where (dollar_if c (exif_filter col v) q) =
     q_where q @ (if c then [BinOp (Col ''exif'' col) Eq (Value (VStr v))] else [])"
  "q_where (dollar_if c withExif q) = q_where q"
  "q_where (dollar_if c (select s) q) = q_where q"
  by (simp_all add: step_defs)

lemma q_joins_steps:
  "q_joins (selectAll t q) = q_joins q"
  "q_joins (dollar_if c (where' cnd) q) = q_joins q"
  "q_joins (dollar_if c (exif_filter col v) q) =
     q_joins q @ (if c then [Join LeftJoin ''exif'' (Col ''assets'' ''id'') (Col ''exif'' ''assetId'')]
                  else [])"
  "q_joins (dollar_if c withExif q) =
     q_joins q @ (if c then [Join LeftJoin ''exif'' (Col ''assets'' ''id'') (Col ''exif'' ''assetId'')]
                  else [])"
  "q_joins (dollar_if c (select s) q) = q_joins q"
  by (simp_all add: step_defs)

lemma q_plugins_steps:
  "q_plugins (selectAll t q) = q_plugins q"
  "q_plugins (dollar_if c (where' cnd) q) = q_plugins q"
  "q_plugins (dollar_if c (exif_filter col v) q) = q_plugins q"
  "q_plugins (dollar_if c withExif q) = q_plugins q"
  "q_plugins (dollar_if c (select s) q) = q_plugins q"
  by (simp_all add: step_defs)

lemma hasPeople_fields:
  "q_where (hasPeople db ids) = []"
  "q_plugins (hasPeople db ids) = k_plugins db"
  "q_joins (hasPeople db ids) =
     (if ids \<noteq> None \<and> length (the ids) > 0
      then [Join InnerJoin ''valid'' (Col ''valid'' ''assetId'') (Col ''assets'' ''id'')] else [])"
  by (simp_all add: hasPeople_def selectFrom_def innerJoin_def hasPeopleCte_def with'_def)

lemma mem_if_single: "x \<in> set (if c then [y] else []) \<longleftrightarrow> c \<and> x = y"
  by auto

lemma defaults_eq:
  "default_withDeleted (default_isArchived options) =
     options
      \<lparr>isArchived :=
         (if isArchived options = None
          then (if truthy_b (withArchived options) then None else Some False)
          else isArchived options),
       withDeleted :=
         (if truthy_b (withDeleted options) then withDeleted options
          else Some (truthy_o (trashedAfter options) \<or> truthy_o (trashedBefore options)))\<rparr>"
  by (simp add: default_withDeleted_def default_isArchived_def)

lemmas builder_defs = searchAssetBuilder_def defaults_eq Let_def search_steps_def

subsection \<open>The options after the call\<close>

text \<open>
  Claim C9, as the code has it. \<^verbatim>\<open>searchAssetBuilder\<close> assigns to two fields of
  the options object it is given and leaves every other field as it was:
  \<^verbatim>\<open>isArchived\<close>, when unset, becomes \<^verbatim>\<open>false\<close> unless
  \<^verbatim>\<open>withArchived\<close> is truthy; \<^verbatim>\<open>withDeleted\<close>, when falsy, becomes
  whether one of the trash-date bounds is set.
\<close>

theorem searchAssetBuilder_assigns_defaults:
  "snd (searchAssetBuilder kysely options) =
     options
      \<lparr>isArchived :=
         (if isArchived options = None
          then (if truthy_b (withArchived options) then None else Some False)
          else isArchived options),
       withDeleted :=
         (if truthy_b (withDeleted options) then withDeleted options
          else Some (truthy_o (trashedAfter options) \<or> truthy_o (trashedBefore options)))\<rparr>"
  by (simp add: searchAssetBuilder_def defaults_eq Let_def)

theorem searchAssetBuilder_assigns_defaults_witness:
  "snd (searchAssetBuilder plain_kysely (no_options\<lparr>withDeleted := Some True\<rparr>)) =
     no_options\<lparr>isArchived := Some False, withDeleted := Some True\<rparr>"
  using searchAssetBuilder_assigns_defaults [of plain_kysely "no_options\<lparr>withDeleted := Some True\<rparr>"]
  by (simp add: no_options_def truthy_simps)

text \<open>
  The claim as stated, that the options are unchanged, fails at the empty options bag:
  \<^verbatim>\<open>isArchived\<close> and \<^verbatim>\<open>withDeleted\<close> are unset before the call and
  \<^verbatim>\<open>false\<close> after it.
\<close>

theorem searchAssetBuilder_mutates_options_counterexample:
  "isArchived no_options = None \<and> withDeleted no_options = None
   \<and> isArchived (snd (searchAssetBuilder plain_kysely no_options)) = Some False
   \<and> withDeleted (snd (searchAssetBuilder plain_kysely no_options)) = Some False"
  by (simp add: searchAssetBuilder_def defaults_eq Let_def no_options_def truthy_simps)

subsection \<open>Falsy filters\<close>

lemma falsy_flag_is_absent:
  "fst (searchAssetBuilder kysely (options\<lparr>isFavorite := Some False\<rparr>))
     = fst (searchAssetBuilder kysely (options\<lparr>isFavorite := None\<rparr>))"
  "fst (searchAssetBuilder kysely (options\<lparr>isOffline := Some False\<rparr>))
     = fst (searchAssetBuilder kysely (options\<lparr>isOffline := None\<rparr>))"
  "fst (searchAssetBuilder kysely (options\<lparr>isVisible := Some False\<rparr>))
     = fst (searchAssetBuilder kysely (options\<lparr>isVisible := None\<rparr>))"
  "fst (searchAssetBuilder kysely (options\<lparr>isEncoded := Some False\<rparr>))
     = fst (searchAssetBuilder kysely (options\<lparr>isEncoded := None\<rparr>))"
  "fst (searchAssetBuilder kysely (options\<lparr>isMotion := Some False\<rparr>))
     = fst (searchAssetBuilder kysely (options\<lparr>isMotion := None\<rparr>))"
  "fst (searchAssetBuilder kysely (options\<lparr>isNotInAlbum := Some False\<rparr>))
     = fst (searchAssetBuilder kysely (options\<lparr>isNotInAlbum := None\<rparr>))"
  "fst (searchAssetBuilder kysely (options\<lparr>withExif' := Some False\<rparr>))
     = fst (searchAssetBuilder kysely (options\<lparr>withExif' := None\<rparr>))"
  "fst (searchAssetBuilder kysely (options\<lparr>withFaces := Some False\<rparr>))
     = fst (searchAssetBuilder kysely (options\<lparr>withFaces := None\<rparr>))"
  "fst (searchAssetBuilder kysely (options\<lparr>withPeople := Some False\<rparr>))
     = fst (searchAssetBuilder kysely (options\<lparr>withPeople := None\<rparr>))"
  "fst (searchAssetBuilder kysely (options\<lparr>withDeleted := Some False\<rparr>))
     = fst (searchAssetBuilder kysely (options\<lparr>withDeleted := None\<rparr>))"
  "fst (searchAssetBuilder kysely (options\<lparr>withArchived := Some False\<rparr>))
     = fst (searchAssetBuilder kysely (options\<lparr>withArchived := None\<rparr>))"
  by (simp_all add: builder_defs truthy_simps dollar_if_simps split del: if_split cong: if_cong)

lemma false_isArchived_is_absent:
  "fst (searchAssetBuilder kysely (options\<lparr>isArchived := Some False\<rparr>))
     = fst (searchAssetBuilder kysely (options\<lparr>isArchived := None\<rparr>))"
  by (cases "truthy_b (withArchived options)")
    (simp_all add: builder_defs truthy_simps dollar_if_simps split del: if_split cong: if_cong)

lemma empty_string_is_absent:
  "fst (searchAssetBuilder kysely (options\<lparr>city := Some []\<rparr>))
     = fst (searchAssetBuilder kysely (options\<lparr>city := None\<rparr>))"
  "fst (searchAssetBuilder kysely (options\<lparr>country := Some []\<rparr>))
     = fst (searchAssetBuilder kysely (options\<lparr>country := None\<rparr>))"
  "fst (searchAssetBuilder kysely (options\<lparr>lensModel := Some []\<rparr>))
     = fst (searchAssetBuilder kysely (options\<lparr>lensModel := None\<rparr>))"
  "fst (searchAssetBuilder kysely (options\<lparr>make' := Some []\<rparr>))
     = fst (searchAssetBuilder kysely (options\<lparr>make' := None\<rparr>))"
  "fst (searchAssetBuilder kysely (options\<lparr>model := Some []\<rparr>))
     = fst (searchAssetBuilder kysely (options\<lparr>model := None\<rparr>))"
  "fst (searchAssetBuilder kysely (options\<lparr>state := Some []\<rparr>))
     = fst (searchAssetBuilder kysely (options\<lparr>state := None\<rparr>))"
  "fst (searchAssetBuilder kysely (options\<lparr>deviceAssetId := Some []\<rparr>))
     = fst (searchAssetBuilder kysely (options\<lparr>deviceAssetId := None\<rparr>))"
  "fst (searchAssetBuilder kysely (options\<lparr>deviceId := Some []\<rparr>))
     = fst (searchAssetBuilder kysely (options\<lparr>deviceId := None\<rparr>))"
  "fst (searchAssetBuilder kysely (options\<lparr>id' := Some []\<rparr>))
     = fst (searchAssetBuilder kysely (options\<lparr>id' := None\<rparr>))"
  "fst (searchAssetBuilder kysely (options\<lparr>libraryId := Some []\<rparr>))
     = fst (searchAssetBuilder kysely (options\<lparr>libraryId := None\<rparr>))"
  "fst (searchAssetBuilder kysely (options\<lparr>encodedVideoPath := Some []\<rparr>))
     = fst (searchAssetBuilder kysely (options\<lparr>encodedVideoPath := None\<rparr>))"
  "fst (searchAssetBuilder kysely (options\<lparr>originalPath := Some []\<rparr>))
     = fst (searchAssetBuilder kysely (options\<lparr>originalPath := None\<rparr>))"
  "fst (searchAssetBuilder kysely (options\<lparr>previewPath := Some []\<rparr>))
     = fst (searchAssetBuilder kysely (options\<lparr>previewPath := None\<rparr>))"
  "fst (searchAssetBuilder kysely (options\<lparr>thumbnailPath := Some []\<rparr>))
     = fst (searchAssetBuilder kysely (options\<lparr>thumbnailPath := None\<rparr>))"
  "fst (searchAssetBuilder kysely (options\<lparr>originalFileName := Some []\<rparr>))
     = fst (searchAssetBuilder kysely (options\<lparr>originalFileName := None\<rparr>))"
  "fst (searchAssetBuilder kysely (options\<lparr>type' := Some []\<rparr>))
     = fst (searchAssetBuilder kysely (options\<lparr>type' := None\<rparr>))"
  by (simp_all add: builder_defs truthy_simps dollar_if_simps split del: if_split cong: if_cong)

text \<open>
  Claim C7. A flag set to \<^verbatim>\<open>false\<close> and a string set to the empty string are
  skipped like an unset field: for every boolean and every string field of the options,
  the query built with the field falsy is the query built with the field unset.
\<close>

theorem falsy_filter_is_absent:
  "fst (searchAssetBuilder kysely (options\<lparr>isFavorite := Some False\<rparr>))
       = fst (searchAssetBuilder kysely (options\<lparr>isFavorite := None\<rparr>))
   \<and> fst (searchAssetBuilder kysely (options\<lparr>isOffline := Some False\<rparr>))
       = fst (searchAssetBuilder kysely (options\<lparr>isOffline := None\<rparr>))
   \<and> fst (searchAssetBuilder kysely (options\<lparr>isVisible := Some False\<rparr>))
       = fst (searchAssetBuilder kysely (options\<lparr>isVisible := None\<rparr>))
   \<and> fst (searchAssetBuilder kysely (options\<lparr>isArchived := Some False\<rparr>))
       = fst (searchAssetBuilder kysely (options\<lparr>isArchived := None\<rparr>))
   \<and> fst (searchAssetBuilder kysely (options\<lparr>isEncoded := Some False\<rparr>))
       = fst (searchAssetBuilder kysely (options\<lparr>isEncoded := None\<rparr>))
   \<and> fst (searchAssetBuilder kysely (options\<lparr>isMotion := Some False\<rparr>))
       = fst (searchAssetBuilder kysely (options\<lparr>isMotion := None\<rparr>))
   \<and> fst (searchAssetBuilder kysely (options\<lparr>isNotInAlbum := Some False\<rparr>))
       = fst (searchAssetBuilder kysely (options\<lparr>isNotInAlbum := None\<rparr>))
   \<and> fst (searchAssetBuilder kysely (options\<lparr>withExif' := Some False\<rparr>))
       = fst (searchAssetBuilder kysely (options\<lparr>withExif' := None\<rparr>))
   \<and> fst (searchAssetBuilder kysely (options\<lparr>withFaces := Some False\<rparr>))
       = fst (searchAssetBuilder kysely (options\<lparr>withFaces := None\<rparr>))
   \<and> fst (searchAssetBuilder kysely (options\<lparr>withPeople := Some False\<rparr>))
       = fst (searchAssetBuilder kysely (options\<lparr>withPeople := None\<rparr>))
   \<and> fst (searchAssetBuilder kysely (options\<lparr>withDeleted := Some False\<rparr>))
       = fst (searchAssetBuilder kysely (options\<lparr>withDeleted := None\<rparr>))
   \<and> fst (searchAssetBuilder kysely (options\<lparr>withArchived := Some False\<rparr>))
       = fst (searchAssetBuilder kysely (options\<lparr>withArchived := None\<rparr>))
   \<and> fst (searchAssetBuilder kysely (options\<lparr>city := Some []\<rparr>))
       = fst (searchAssetBuilder kysely (options\<lparr>city := None\<rparr>))
   \<and> fst (searchAssetBuilder kysely (options\<lparr>country := Some []\<rparr>))
       = fst (searchAssetBuilder kysely (options\<lparr>country := None\<rparr>))
   \<and> fst (searchAssetBuilder kysely (options\<lparr>lensModel := Some []\<rparr>))
       = fst (searchAssetBuilder kysely (options\<lparr>lensModel := None\<rparr>))
   \<and> fst (searchAssetBuilder kysely (options\<lparr>make' := Some []\<rparr>))
       = fst (searchAssetBuilder kysely (options\<lparr>make' := None\<rparr>))
   \<and> fst (searchAssetBuilder kysely (options\<lparr>model := Some []\<rparr>))
       = fst (searchAssetBuilder kysely (options\<lparr>model := None\<rparr>))
   \<and> fst (searchAssetBuilder kysely (options\<lparr>state := Some []\<rparr>))
       = fst (searchAssetBuilder kysely (options\<lparr>state := None\<rparr>))
   \<and> fst (searchAssetBuilder kysely (options\<lparr>deviceAssetId := Some []\<rparr>))
       = fst (searchAssetBuilder kysely (options\<lparr>deviceAssetId := None\<rparr>))
   \<and> fst (searchAssetBuilder kysely (options\<lparr>deviceId := Some []\<rparr>))
       = fst (searchAssetBuilder kysely (options\<lparr>deviceId := None\<rparr>))
   \<and> fst (searchAssetBuilder kysely (options\<lparr>id' := Some []\<rparr>))
       = fst (searchAssetBuilder kysely (options\<lparr>id' := None\<rparr>))
   \<and> fst (searchAssetBuilder kysely (options\<lparr>libraryId := Some []\<rparr>))
       = fst (searchAssetBuilder kysely (options\<lparr>libraryId := None\<rparr>))
   \<and> fst (searchAssetBuilder kysely (options\<lparr>encodedVideoPath := Some []\<rparr>))
       = fst (searchAssetBuilder kysely (options\<lparr>encodedVideoPath := None\<rparr>))
   \<and> fst (searchAssetBuilder kysely (options\<lparr>originalPath := Some []\<rparr>))
       = fst (searchAssetBuilder kysely (options\<lparr>originalPath := None\<rparr>))
   \<and> fst (searchAssetBuilder kysely (options\<lparr>previewPath := Some []\<rparr>))
       = fst (searchAssetBuilder kysely (options\<lparr>previewPath := None\<rparr>))
   \<and> fst (searchAssetBuilder kysely (options\<lparr>thumbnailPath := Some []\<rparr>))
       = fst (searchAssetBuilder kysely (options\<lparr>thumbnailPath := None\<rparr>))
   \<and> fst (searchAssetBuilder kysely (options\<lparr>originalFileName := Some []\<rparr>))
       = fst (searchAssetBuilder kysely (options\<lparr>originalFileName := None\<rparr>))
   \<and> fst (searchAssetBuilder kysely (options\<lparr>type' := Some []\<rparr>))
       = fst (searchAssetBuilder kysely (options\<lparr>type' := None\<rparr>))"
  by (intro conjI)
    (rule falsy_flag_is_absent false_isArchived_is_absent empty_string_is_absent)+

theorem falsy_filter_is_absent_witness:
  "fst (searchAssetBuilder plain_kysely (no_options\<lparr>isFavorite := Some False, city := Some []\<rparr>))
     = fst (searchAssetBuilder plain_kysely no_options)"
proof -
  have "fst (searchAssetBuilder plain_kysely (no_options\<lparr>city := Some [], isFavorite := Some False\<rparr>))
      = fst (searchAssetBuilder plain_kysely (no_options\<lparr>city := Some [], isFavorite := None\<rparr>))"
    using falsy_filter_is_absent [of plain_kysely "no_options\<lparr>city := Some []\<rparr>"] by simp
  moreover have "fst (searchAssetBuilder plain_kysely (no_options\<lparr>city := Some []\<rparr>))
      = fst (searchAssetBuilder plain_kysely (no_options\<lparr>city := None\<rparr>))"
    using falsy_filter_is_absent [of plain_kysely no_options] by simp
  ultimately show ?thesis by (simp add: no_options_def)
qed

subsection \<open>Soft-deleted and archived assets\<close>

lemma q_where_transformQuery: "q_where (transformQuery p q) = q_where q"
  by (cases p) simp

lemma q_where_plugins: "q_where (foldl (\<lambda>q' p. transformQuery p q') q ps) = q_where q"
  by (induction ps arbitrary: q) (simp_all add: q_where_transformQuery)

lemma q_where_compile: "q_where (compile q) = q_where q"
  by (simp add: compile_def q_where_plugins)

lemma returned_row_meets_where:
  assumes "sc \<in> set (execute st db q)" and "c \<in> set (q_where q)"
  shows "eval_cond st (with_tables st db (q_with (compile q))) sc c = Some True"
proof -
  from assms(1)
  have "holds_all st (with_tables st db (q_with (compile q))) (q_where (compile q)) sc"
    by (simp add: execute_def run_query_def Let_def)
  with assms(2) show ?thesis
    by (simp add: holds_all_def list_all_iff q_where_compile)
qed

lemma deletedAt_null_of_returned:
  assumes "IsNull (Col ''assets'' ''deletedAt'') \<in> set (q_where q)"
    and "r \<in> set (returned_assets st db q)"
  shows "column r ''deletedAt'' = VNull"
proof -
  from assms(2) obtain sc where sc: "sc \<in> set (execute st db q)" and r: "r = row_of ''assets'' sc"
    by (auto simp: returned_assets_def)
  from returned_row_meets_where [OF sc assms(1)]
  have "eval_expr st sc (Col ''assets'' ''deletedAt'') = VNull"
    by simp
  then show ?thesis
    by (cases "map_of sc ''assets''") (simp_all add: r row_of_def column_def)
qed

lemma deletedAt_clause_iff:
  "IsNull (Col ''assets'' ''deletedAt'') \<in> set (q_where (fst (searchAssetBuilder kysely options)))
     \<longleftrightarrow> \<not> truthy_b (withDeleted options) \<and> trashedAfter options = None
           \<and> trashedBefore options = None"
proof -
  have "IsNull (Col ''assets'' ''deletedAt'') \<in> set (q_where (fst (searchAssetBuilder kysely options)))
     \<longleftrightarrow> \<not> truthy_b
          (if truthy_b (withDeleted options) then withDeleted options
           else Some (truthy_o (trashedAfter options) \<or> truthy_o (trashedBefore options)))"
    by (simp add: builder_defs chain_simps q_where_steps hasPeople_fields mem_if_single
        split del: if_split)
  also have "\<dots> \<longleftrightarrow> \<not> truthy_b (withDeleted options) \<and> trashedAfter options = None
           \<and> trashedBefore options = None"
    by (cases "trashedAfter options"; cases "trashedBefore options") (simp_all add: truthy_simps)
  finally show ?thesis .
qed

text \<open>
  Claim C5. The condition \<^verbatim>\<open>assets.deletedAt is null\<close> is among the conditions of
  the query exactly when \<^verbatim>\<open>withDeleted\<close> is not requested and neither trash-date
  bound is set; and a query that carries the condition returns no soft-deleted asset,
  whatever the database holds.
\<close>

theorem soft_deleted_excluded_iff:
  "(IsNull (Col ''assets'' ''deletedAt'') \<in> set (q_where (fst (searchAssetBuilder kysely options)))
      \<longleftrightarrow> \<not> truthy_b (withDeleted options) \<and> trashedAfter options = None
            \<and> trashedBefore options = None)
   \<and> (IsNull (Col ''assets'' ''deletedAt'') \<in> set (q_where (fst (searchAssetBuilder kysely options)))
      \<longrightarrow> list_all (\<lambda>r. column r ''deletedAt'' = VNull)
            (returned_assets st db (fst (searchAssetBuilder kysely options))))"
proof (intro conjI impI)
  show "IsNull (Col ''assets'' ''deletedAt'') \<in> set (q_where (fst (searchAssetBuilder kysely options)))
      \<longleftrightarrow> \<not> truthy_b (withDeleted options) \<and> trashedAfter options = None
            \<and> trashedBefore options = None"
    by (rule deletedAt_clause_iff)
next
  assume "IsNull (Col ''assets'' ''deletedAt'') \<in> set (q_where (fst (searchAssetBuilder kysely options)))"
  then show "list_all (\<lambda>r. column r ''deletedAt'' = VNull)
            (returned_assets st db (fst (searchAssetBuilder kysely options)))"
    unfolding list_all_iff using deletedAt_null_of_returned by blast
qed

theorem soft_deleted_excluded_iff_witness:
  "IsNull (Col ''assets'' ''deletedAt'') \<in> set (q_where (fst (searchAssetBuilder plain_kysely no_options)))
   \<and> list_all (\<lambda>r. column r ''deletedAt'' = VNull)
       (returned_assets plain_store library_db (fst (searchAssetBuilder plain_kysely no_options)))
   \<and> IsNull (Col ''assets'' ''deletedAt'')
       \<notin> set (q_where (fst (searchAssetBuilder plain_kysely (no_options\<lparr>trashedAfter := Some 0\<rparr>))))"
  using soft_deleted_excluded_iff [of plain_kysely no_options plain_store library_db]
    soft_deleted_excluded_iff [of plain_kysely "no_options\<lparr>trashedAfter := Some 0\<rparr>" plain_store library_db]
  by (simp add: no_options_def truthy_simps)

lemma isArchived_false_never_added:
  "BinOp (Col ''assets'' ''isArchived'') Eq (Value (VBool False))
     \<notin> set (q_where (fst (searchAssetBuilder kysely options)))"
proof -
  let ?a = "if isArchived options = None
            then (if truthy_b (withArchived options) then None else Some False)
            else isArchived options"
  have "BinOp (Col ''assets'' ''isArchived'') Eq (Value (VBool False))
          \<in> set (q_where (fst (searchAssetBuilder kysely options)))
        \<longleftrightarrow> \<not> the ?a \<and> truthy_b ?a"
    by (simp add: builder_defs chain_simps q_where_steps hasPeople_fields mem_if_single
        split del: if_split) 
  moreover have "\<not> (\<not> the ?a \<and> truthy_b ?a)"
    by (cases ?a) (simp_all add: truthy_simps)
  ultimately show ?thesis by simp
qed

text \<open>
  Claim C1, evaluated. From the empty options bag \<^verbatim>\<open>isArchived\<close> is defaulted to
  \<^verbatim>\<open>false\<close>, the step that would constrain \<^verbatim>\<open>assets.isArchived\<close> is
  skipped because \<^verbatim>\<open>false\<close> is falsy, and the only condition of the query is
  \<^verbatim>\<open>assets.deletedAt is null\<close>: the archived asset \<open>a1\<close> is returned.
\<close>

theorem archived_asset_returned_by_default:
  "isArchived no_options = None \<and> withArchived no_options = None
   \<and> q_where (fst (searchAssetBuilder plain_kysely no_options))
       = [IsNull (Col ''assets'' ''deletedAt'')]
   \<and> returned_assets plain_store library_db (fst (searchAssetBuilder plain_kysely no_options))
       = [[(''id'', VStr ''a1''), (''isArchived'', VBool True), (''deletedAt'', VNull)],
          [(''id'', VStr ''a2''), (''isArchived'', VBool False), (''deletedAt'', VNull)]]"
  by code_simp

text \<open>
  Claim C10, evaluated. With \<^verbatim>\<open>isNotInAlbum\<close> set, the condition that the
  builder adds is \<^verbatim>\<open>not exists\<close> over the membership rows whose column
  \<^verbatim>\<open>assetsId\<close> equals the bound string \<^verbatim>\<open>'assets.id'\<close>: the right-hand
  side is a constant, the same for every asset, and not a reference to the column
  \<^verbatim>\<open>id\<close> of the enclosing row. The sub-select therefore never mentions the asset
  under test, and the condition cannot tell an asset that is in an album from one that is
  not.
\<close>

theorem isNotInAlbum_compares_assetsId_with_constant:
  "q_where (fst (searchAssetBuilder plain_kysely (no_options\<lparr>isNotInAlbum := Some True\<rparr>)))
       = [NotExpr (ExistsFrom ''albums_assets_assets''
                    [BinOp (UCol ''assetsId'') Eq (Value (VStr ''assets.id''))]),
          IsNull (Col ''assets'' ''deletedAt'')]
   \<and> q_where (fst (searchAssetBuilder plain_kysely (no_options\<lparr>isNotInAlbum := Some True\<rparr>)))
       \<noteq> [NotExpr (ExistsFrom ''albums_assets_assets''
                    [BinOp (UCol ''assetsId'') Eq (Col ''assets'' ''id'')]),
          IsNull (Col ''assets'' ''deletedAt'')]"
  by code_simp

subsection \<open>Joins to the EXIF relation\<close>

lemma removeDuplicateJoins_set: "set (removeDuplicateJoins out js) = set out \<union> set js"
  by (induction js arbitrary: out) auto

lemma removeDuplicateJoins_distinct:
  "distinct out \<Longrightarrow> distinct (removeDuplicateJoins out js)"
  by (induction js arbitrary: out) auto

lemma removeDuplicateJoins_of_distinct:
  "distinct (out @ js) \<Longrightarrow> removeDuplicateJoins out js = out @ js"
  by (induction js arbitrary: out) auto

lemma removeDuplicateJoins_idem:
  "removeDuplicateJoins [] (removeDuplicateJoins [] js) = removeDuplicateJoins [] js"
  using removeDuplicateJoins_of_distinct [of "[]" "removeDuplicateJoins [] js"]
    removeDuplicateJoins_distinct [of "[]" js]
  by simp

lemma q_joins_plugins:
  "q_joins (foldl (\<lambda>q' p. transformQuery p q') q ps) =
     (if ps = [] then q_joins q else removeDuplicateJoins [] (q_joins q))"
proof (induction ps arbitrary: q)
  case Nil
  then show ?case by simp
next
  case (Cons p ps)
  then show ?case by (cases p) (simp add: removeDuplicateJoins_idem)
qed

lemma filter_distinct_single:
  assumes "distinct xs" and "\<forall>x\<in>set xs. P x \<longrightarrow> x = e" and "P e"
  shows "filter P xs = (if e \<in> set xs then [e] else [])"
  using assms
proof (induction xs)
  case Nil
  show ?case by simp
next
  case (Cons x xs)
  from Cons.prems(1) have d: "x \<notin> set xs" "distinct xs"
    by simp_all
  from Cons.prems(2) have rest: "\<forall>y\<in>set xs. P y \<longrightarrow> y = e"
    by (meson list.set_intros(2))
  have IH: "filter P xs = (if e \<in> set xs then [e] else [])"
    by (rule Cons.IH [OF d(2) rest Cons.prems(3)])
  show ?case
  proof (cases "P x")
    case True
    from Cons.prems(2) True have xe: "x = e"
      by (meson list.set_intros(1))
    with d(1) have "e \<notin> set xs"
      by blast
    with IH have "filter P xs = []"
      by simp
    with True xe show ?thesis
      by simp
  next
    case False
    with Cons.prems(3) have "x \<noteq> e"
      by blast
    with False IH show ?thesis
      by simp
  qed
qed

lemma q_plugins_searchAssetBuilder:
  "q_plugins (fst (searchAssetBuilder kysely options)) = k_plugins kysely @ [DeduplicateJoinsPlugin]"
  by (simp add: builder_defs chain_simps q_plugins_steps hasPeople_fields withPlugin_def
      joinDeduplicationPlugin_def split del: if_split)

lemma q_joins_searchAssetBuilder:
  "q_joins (fst (searchAssetBuilder kysely options)) =
     (if personIds options \<noteq> None \<and> the (personIds options) \<noteq> []
      then [Join InnerJoin ''valid'' (Col ''valid'' ''assetId'') (Col ''assets'' ''id'')] else [])
     @ (if truthy_s (city options)
        then [Join LeftJoin ''exif'' (Col ''assets'' ''id'') (Col ''exif'' ''assetId'')] else [])
     @ (if truthy_s (country options)
        then [Join LeftJoin ''exif'' (Col ''assets'' ''id'') (Col ''exif'' ''assetId'')] else [])
     @ (if truthy_s (lensModel options)
        then [Join LeftJoin ''exif'' (Col ''assets'' ''id'') (Col ''exif'' ''assetId'')] else [])
     @ (if truthy_s (make' options)
        then [Join LeftJoin ''exif'' (Col ''assets'' ''id'') (Col ''exif'' ''assetId'')] else [])
     @ (if truthy_s (model options)
        then [Join LeftJoin ''exif'' (Col ''assets'' ''id'') (Col ''exif'' ''assetId'')] else [])
     @ (if truthy_s (state options)
        then [Join LeftJoin ''exif'' (Col ''assets'' ''id'') (Col ''exif'' ''assetId'')] else [])
     @ (if truthy_b (withExif' options)
        then [Join LeftJoin ''exif'' (Col ''assets'' ''id'') (Col ''exif'' ''assetId'')] else [])"
  by (simp add: builder_defs chain_simps q_joins_steps hasPeople_fields split del: if_split)

lemma join_of_searchAssetBuilder:
  assumes "j \<in> set (q_joins (fst (searchAssetBuilder kysely options)))"
  shows "j = Join InnerJoin ''valid'' (Col ''valid'' ''assetId'') (Col ''assets'' ''id'')
         \<or> j = Join LeftJoin ''exif'' (Col ''assets'' ''id'') (Col ''exif'' ''assetId'')"
  using assms unfolding q_joins_searchAssetBuilder set_append Un_iff mem_if_single
  by blast

lemma exif_join_of_searchAssetBuilder:
  "Join LeftJoin ''exif'' (Col ''assets'' ''id'') (Col ''exif'' ''assetId'')
     \<in> set (q_joins (fst (searchAssetBuilder kysely options))) \<longleftrightarrow>
   truthy_s (city options) \<or> truthy_s (country options) \<or> truthy_s (lensModel options)
   \<or> truthy_s (make' options) \<or> truthy_s (model options) \<or> truthy_s (state options)
   \<or> truthy_b (withExif' options)"
  unfolding q_joins_searchAssetBuilder set_append Un_iff mem_if_single
  by simp



lemma compiled_joins:
  "q_joins (compile (fst (searchAssetBuilder kysely options))) =
     removeDuplicateJoins [] (q_joins (fst (searchAssetBuilder kysely options)))"
  by (simp add: compile_def q_joins_plugins q_plugins_searchAssetBuilder
        removeDuplicateJoins_idem)


lemma exif_joins_only:
  assumes "j \<in> set (removeDuplicateJoins [] (q_joins (fst (searchAssetBuilder kysely options))))"
    and "join_table j = ''exif''"
  shows "j = Join LeftJoin ''exif'' (Col ''assets'' ''id'') (Col ''exif'' ''assetId'')"
proof -
  from assms(1) have "j \<in> set (q_joins (fst (searchAssetBuilder kysely options)))"
    by (simp add: removeDuplicateJoins_set)
  from join_of_searchAssetBuilder [OF this]
  show ?thesis
  proof
    assume "j = Join InnerJoin ''valid'' (Col ''valid'' ''assetId'') (Col ''assets'' ''id'')"
    with assms(2) show ?thesis by simp
  next
    assume "j = Join LeftJoin ''exif'' (Col ''assets'' ''id'') (Col ''exif'' ''assetId'')"
    then show ?thesis .
  qed
qed


lemma exif_joins_compiled:
  "joins_to ''exif'' (compile (fst (searchAssetBuilder kysely options))) =
     (if truthy_s (city options) \<or> truthy_s (country options) \<or> truthy_s (lensModel options)
         \<or> truthy_s (make' options) \<or> truthy_s (model options) \<or> truthy_s (state options)
         \<or> truthy_b (withExif' options)
      then [Join LeftJoin ''exif'' (Col ''assets'' ''id'') (Col ''exif'' ''assetId'')] else [])"
proof -
  let ?e = "Join LeftJoin ''exif'' (Col ''assets'' ''id'') (Col ''exif'' ''assetId'')"
  let ?js = "removeDuplicateJoins [] (q_joins (fst (searchAssetBuilder kysely options)))"
  have "distinct ?js"
    by (simp add: removeDuplicateJoins_distinct)
  moreover have "\<forall>j\<in>set ?js. join_table j = ''exif'' \<longrightarrow> j = ?e"
    using exif_joins_only by blast
  moreover have "join_table ?e = ''exif''"
    by simp
  ultimately have "filter (\<lambda>j. join_table j = ''exif'') ?js = (if ?e \<in> set ?js then [?e] else [])"
    by (rule filter_distinct_single [of ?js "\<lambda>j. join_table j = ''exif''" ?e])
  then have "joins_to ''exif'' (compile (fst (searchAssetBuilder kysely options)))
      = (if ?e \<in> set (q_joins (fst (searchAssetBuilder kysely options))) then [?e] else [])"
    by (simp only: joins_to_def compiled_joins removeDuplicateJoins_set set_simps Un_empty_left)
  then show ?thesis
    by (simp only: exif_join_of_searchAssetBuilder)
qed

lemma two_exif_filters_set:
  assumes "2 \<le> exif_filters_set options"
  shows "truthy_s (city options) \<or> truthy_s (country options) \<or> truthy_s (lensModel options)
         \<or> truthy_s (make' options) \<or> truthy_s (model options) \<or> truthy_s (state options)"
proof (rule ccontr)
  assume "\<not> ?thesis"
  then have "exif_filters_set options = 0"
    by (simp add: exif_filters_set_def)
  with assms show False by simp
qed

text \<open>
  Claim C6. When the options set two or more of the filters on EXIF columns, the
  generated query joins the EXIF relation exactly once, whatever else the options ask
  for and whatever plugins the connection already has.
\<close>

theorem one_exif_join:
  assumes "2 \<le> exif_filters_set options"
  shows "joins_to ''exif'' (compile (fst (searchAssetBuilder kysely options))) =
           [Join LeftJoin ''exif'' (Col ''assets'' ''id'') (Col ''exif'' ''assetId'')]"
  using two_exif_filters_set [OF assms] unfolding exif_joins_compiled by auto

theorem one_exif_join_witness:
  "exif_filters_set (no_options\<lparr>city := Some ''Oslo'', country := Some ''Norway''\<rparr>) = 2
   \<and> length (joins_to ''exif''
        (fst (searchAssetBuilder plain_kysely
               (no_options\<lparr>city := Some ''Oslo'', country := Some ''Norway''\<rparr>)))) = 2
   \<and> length (joins_to ''exif''
        (compile (fst (searchAssetBuilder plain_kysely
               (no_options\<lparr>city := Some ''Oslo'', country := Some ''Norway''\<rparr>))))) = 1"
proof -
  let ?o = "no_options\<lparr>city := Some ''Oslo'', country := Some ''Norway''\<rparr>"
  have n: "exif_filters_set ?o = 2"
    by (simp add: exif_filters_set_def no_options_def truthy_simps)
  then have "2 \<le> exif_filters_set ?o" by simp
  from one_exif_join [OF this, of plain_kysely]
  have "length (joins_to ''exif'' (compile (fst (searchAssetBuilder plain_kysely ?o)))) = 1"
    by simp
  moreover have "length (joins_to ''exif'' (fst (searchAssetBuilder plain_kysely ?o))) = 2"
    by code_simp
  ultimately show ?thesis using n by simp
qed

section \<open>The people-membership filter and the stack attacher, evaluated\<close>

text \<open>
  Claim C2, evaluated. The common table expression counts the face rows of an asset that
  name a requested person, not the distinct persons they name. Asset \<open>a1\<close> has two
  faces, both of person \<open>p1\<close>; asked for the persons \<open>p1\<close> and \<open>p2\<close>, its count is
  two, and the asset passes the filter beside \<open>a2\<close>, which shows both persons.
\<close>

theorem repeated_person_passes_people_filter:
  "map (\<lambda>f. (column f ''assetId'', column f ''personId'')) (table_rows faces_db ''asset_faces'')
     = [(VStr ''a1'', VStr ''p1''), (VStr ''a1'', VStr ''p1''),
        (VStr ''a2'', VStr ''p1''), (VStr ''a2'', VStr ''p2'')]
   \<and> table_of_select plain_store faces_db
         (snd (hd (k_with (hasPeopleCte plain_kysely [''p1'', ''p2'']))))
     = [[(''assetId'', VStr ''a1'')], [(''assetId'', VStr ''a2'')]]
   \<and> returned_assets plain_store faces_db (hasPeople plain_kysely (Some [''p1'', ''p2'']))
     = [[(''id'', VStr ''a1''), (''deletedAt'', VNull)],
        [(''id'', VStr ''a2''), (''deletedAt'', VNull)]]"
  by code_simp

text \<open>
  Claim C4, evaluated. The sub-select reads \<^verbatim>\<open>assets as stacked\<close>, but its two
  stack conditions name \<^verbatim>\<open>assets\<close> and \<^verbatim>\<open>asset_stack\<close>, the row of the
  enclosing query, where \<^verbatim>\<open>asset_stack.primaryAssetId != assets.id\<close> is false for the
  primary asset. For the primary \<open>a\<close> with the siblings \<open>b\<close> and \<open>c\<close> (soft-deleted)
  nothing is aggregated into \<^verbatim>\<open>stackedAssets\<close>, with \<^verbatim>\<open>withDeleted\<close> unset
  or set.
\<close>

theorem stackedAssets_empty_for_primary:
  "aggregated plain_store stack_db (withStack (selectFrom plain_kysely ''assets'') True None)
       ''stackedAssets''
     = [([(''id'', VStr ''a''), (''stackId'', VStr ''s''), (''deletedAt'', VNull)], [])]
   \<and> aggregated plain_store stack_db
       (withStack (selectFrom plain_kysely ''assets'') True (Some True)) ''stackedAssets''
     = [([(''id'', VStr ''a''), (''stackId'', VStr ''s''), (''deletedAt'', VNull)], [])]"
  by code_simp

section \<open>Properties of the migration\<close>

subsection \<open>What each statement does to the columns\<close>

lemma create_asset_files_columns:
  "create_asset_files db = Inr db' \<Longrightarrow>
     files_columns db' = Some [''id'', ''assetId'', ''createdAt'', ''updatedAt'', ''deletedAt'', ''type'', ''path'']
     \<and> assets_columns db' = assets_columns db"
  by (auto simp: create_asset_files_def files_columns_def assets_columns_def map_add_def
      split: if_splits option.splits)

lemma create_unique_index_same: "create_unique_index db = Inr db' \<Longrightarrow> db' = db"
  by (auto simp: create_unique_index_def split: if_splits option.splits sum.splits)

lemma add_foreign_key_same: "add_foreign_key db = Inr db' \<Longrightarrow> db' = db"
  by (auto simp: add_foreign_key_def split: if_splits option.splits sum.splits)

lemma insert_asset_files_columns:
  "insert_asset_files ty c db = Inr db' \<Longrightarrow>
     files_columns db' = files_columns db \<and> assets_columns db' = assets_columns db
     \<and> (\<exists>cols. assets_columns db = Some cols \<and> ''id'' \<in> set cols)"
  by (auto simp: insert_asset_files_def files_columns_def assets_columns_def Let_def update_conv'
      split: if_splits option.splits)

lemma drop_column_assets_columns:
  "drop_column ''assets'' c db = Inr db' \<Longrightarrow>
     files_columns db' = files_columns db
     \<and> assets_columns db' = map_option (removeAll c) (assets_columns db)"
  by (auto simp: drop_column_def files_columns_def assets_columns_def update_conv'
      split: if_splits option.splits)

lemma add_column_assets_columns:
  "add_column ''assets'' c d db = Inr db' \<Longrightarrow>
     files_columns db' = files_columns db
     \<and> assets_columns db' = map_option (\<lambda>cols. cols @ [c]) (assets_columns db)"
  by (auto simp: add_column_def files_columns_def assets_columns_def update_conv'
      split: if_splits option.splits)

lemma add_column_assets_ok:
  "assets_columns db = Some cols \<Longrightarrow> c \<notin> set cols \<Longrightarrow> \<exists>db'. add_column ''assets'' c d db = Inr db'"
  by (auto simp: add_column_def assets_columns_def)

lemma restore_path_fails:
  assumes "files_columns db
             = Some [''id'', ''assetId'', ''createdAt'', ''updatedAt'', ''deletedAt'', ''type'', ''path'']"
    and "assets_columns db = Some cols" and "c \<in> set cols" and "''id'' \<in> set cols"
  shows "restore_path ty c db = Inl (ColumnMissing ''asset_files'' ''assetid'')"
proof -
  from assms(1) obtain files where f: "map_of db ''asset_files'' = Some files"
    and fcols: "rel_columns files
                = [''id'', ''assetId'', ''createdAt'', ''updatedAt'', ''deletedAt'', ''type'', ''path'']"
    by (auto simp: files_columns_def)
  from assms(2) obtain assets where a: "map_of db ''assets'' = Some assets"
    and acols: "rel_columns assets = cols"
    by (auto simp: assets_columns_def)
  have "resolve ''assets'' assets (Quoted c) = Inr c"
    and "resolve ''asset_files'' files (Bare ''path'') = Inr ''path''"
    and "resolve ''assets'' assets (Bare ''id'') = Inr ''id''"
    and "resolve ''asset_files'' files (Bare ''assetId'') = Inl (ColumnMissing ''asset_files'' ''assetid'')"
    using assms(3,4) by (simp_all add: resolve_def fcols acols lower_char_def)
  then show ?thesis
    by (simp add: restore_path_def f a)
qed

subsection \<open>Up, then down\<close>

text \<open>
  Whenever \<^verbatim>\<open>up\<close> runs through, it leaves \<^verbatim>\<open>asset_files\<close> with the columns of
  its \<^verbatim>\<open>CREATE TABLE\<close> and \<^verbatim>\<open>assets\<close> with \<^verbatim>\<open>id\<close> and without
  \<^verbatim>\<open>previewPath\<close>.
\<close>

lemma up_columns:
  assumes "up db = Inr db'"
  shows "files_columns db'
           = Some [''id'', ''assetId'', ''createdAt'', ''updatedAt'', ''deletedAt'', ''type'', ''path'']
    \<and> (\<exists>cols. assets_columns db' = Some cols \<and> ''id'' \<in> set cols \<and> ''previewPath'' \<notin> set cols)"
proof -
  from assms obtain d1 d2 d3 d4 d5 d6 where
    s1: "create_asset_files db = Inr d1" and s2: "create_unique_index d1 = Inr d2"
    and s3: "add_foreign_key d2 = Inr d3"
    and s4: "insert_asset_files ''preview'' ''previewPath'' d3 = Inr d4"
    and s5: "drop_column ''assets'' ''previewPath'' d4 = Inr d5"
    and s6: "insert_asset_files ''thumbnail'' ''thumbnailPath'' d5 = Inr d6"
    and s7: "drop_column ''assets'' ''thumbnailPath'' d6 = Inr db'"
    unfolding up_def by (auto split: sum.splits)
  from insert_asset_files_columns [OF s4] obtain cols where
    c4: "assets_columns d4 = Some cols" and id: "''id'' \<in> set cols"
    by auto
  have "assets_columns db' = Some (removeAll ''thumbnailPath'' (removeAll ''previewPath'' cols))"
    using drop_column_assets_columns [OF s5] insert_asset_files_columns [OF s6]
      drop_column_assets_columns [OF s7] c4
    by simp
  moreover have "files_columns db'
      = Some [''id'', ''assetId'', ''createdAt'', ''updatedAt'', ''deletedAt'', ''type'', ''path'']"
    using create_asset_files_columns [OF s1] create_unique_index_same [OF s2]
      add_foreign_key_same [OF s3] insert_asset_files_columns [OF s4]
      drop_column_assets_columns [OF s5] insert_asset_files_columns [OF s6]
      drop_column_assets_columns [OF s7]
    by simp
  ultimately show ?thesis
    using id by simp
qed

lemma down_fails:
  assumes "files_columns db
             = Some [''id'', ''assetId'', ''createdAt'', ''updatedAt'', ''deletedAt'', ''type'', ''path'']"
    and "assets_columns db = Some cols" and "''id'' \<in> set cols" and "''previewPath'' \<notin> set cols"
  shows "down db = Inl (ColumnMissing ''asset_files'' ''assetid'')"
proof -
  from add_column_assets_ok [OF assms(2,4)]
  obtain d1 where s1: "add_column ''assets'' ''previewPath'' VNull db = Inr d1"
    by blast
  from add_column_assets_columns [OF s1] assms(1,2)
  have "files_columns d1
      = Some [''id'', ''assetId'', ''createdAt'', ''updatedAt'', ''deletedAt'', ''type'', ''path'']"
    and "assets_columns d1 = Some (cols @ [''previewPath''])"
    by simp_all
  then have "restore_path ''preview'' ''previewPath'' d1 = Inl (ColumnMissing ''asset_files'' ''assetid'')"
    by (rule restore_path_fails) (simp_all add: assms(3))
  with s1 show ?thesis
    by (simp add: down_def)
qed

text \<open>
  So on every database on which \<^verbatim>\<open>up\<close> runs through, \<^verbatim>\<open>down\<close> re-adds the
  column \<^verbatim>\<open>previewPath\<close> and then fails at its first \<^verbatim>\<open>UPDATE\<close>, on the
  column \<^verbatim>\<open>assetid\<close>; \<^verbatim>\<open>up\<close> followed by \<^verbatim>\<open>down\<close> never runs
  through.
\<close>

lemma down_after_up_fails:
  assumes "up db = Inr db'"
  shows "down db' = Inl (ColumnMissing ''asset_files'' ''assetid'')"
  using up_columns [OF assms] down_fails by blast

lemma up_then_down_never_completes: "up_then_down db \<noteq> Inr db'"
proof (cases "up db")
  case (Inl e)
  then show ?thesis
    by (simp add: up_then_down_def)
next
  case (Inr d)
  from down_after_up_fails [OF Inr] Inr show ?thesis
    by (simp add: up_then_down_def)
qed

text \<open>
  Claim C8, evaluated. The asset \<open>a1\<close> has the legacy preview path
  \<^verbatim>\<open>upload/a1.jpeg\<close>. \<^verbatim>\<open>up\<close> runs through and leaves the table
  \<^verbatim>\<open>asset_files\<close> with the column \<^verbatim>\<open>assetId\<close>, created under a quoted name.
  The first \<^verbatim>\<open>UPDATE\<close> of \<^verbatim>\<open>down\<close> names that column without quotes, which
  the store reads as \<^verbatim>\<open>assetid\<close>: there is no such column, the statement fails,
  and \<^verbatim>\<open>up\<close> followed by \<^verbatim>\<open>down\<close> ends in that failure instead of a
  restored \<^verbatim>\<open>previewPath\<close>.
\<close>

theorem up_then_down_fails_on_unquoted_assetId:
  "asset_column legacy_db (VStr ''a1'') ''previewPath'' = Some (VStr ''upload/a1.jpeg'')
   \<and> columns_after up legacy_db ''asset_files''
       = Inr (Some [''id'', ''assetId'', ''createdAt'', ''updatedAt'', ''deletedAt'', ''type'', ''path''])
   \<and> column_name (Bare ''assetId'') = ''assetid''
   \<and> up_then_down legacy_db = Inl (ColumnMissing ''asset_files'' ''assetid'')
   \<and> column_after up_then_down legacy_db (VStr ''a1'') ''previewPath''
       = Inl (ColumnMissing ''asset_files'' ''assetid'')"
  by code_simp


end
